theory Spec2Isabelle
  imports Main "HOL-Library.Word"
begin

section \<open>The chaincode install workflow of peer/chaincode/install.go\<close>

text \<open>
  The workflow of \<^verbatim>\<open>install.go\<close> is embedded function by function. Every call that
  leaves the file (file reader, signer, package codec, proposal construction, endorser
  client, protobuf codec) is a function taken as a parameter, either a field of the
  \<open>installer\<close> record, as in the Go struct, or a field of the record \<open>collaborators\<close>
  for package-level functions and constants. Each source function returns its Go result
  together with the list of collaborator calls it made, in order, so that statements on
  what is called, how often and in which order can be made. The constructor of the cobra
  command, \<^verbatim>\<open>installCmd\<close>, only wires the flags and the factory to
  \<^verbatim>\<open>installChaincode\<close> and is not embedded.
\<close>

subsection \<open>Data\<close>

text \<open>A Go \<^verbatim>\<open>[]byte\<close>, and a Go \<^verbatim>\<open>string\<close>, is a sequence of bytes: a list of
  8-bit characters. A nil slice and an empty slice are both \<open>[]\<close>.\<close>

type_synonym bytes = string

text \<open>\<^verbatim>\<open>msp.IdentityIdentifier\<close>, the value of \<^verbatim>\<open>Signer.GetIdentifier()\<close>.\<close>

record identity_identifier =
  Mspid :: string
  Id :: string

text \<open>Go errors. An error is kept as the constructor call of the source, with the format
  string and its arguments as passed, so no formatting routine has to be modelled.
  \<open>New\<close> is \<^verbatim>\<open>errors.New\<close>, \<open>Errorf\<close> is \<^verbatim>\<open>errors.Errorf\<close>,
  \<open>WithMessage\<close> is \<^verbatim>\<open>errors.WithMessage\<close> and \<open>Wrap\<close> is \<^verbatim>\<open>errors.Wrap\<close>.
  A collaborator may return any value of the type.\<close>

datatype fmt_arg = ArgS string | ArgD int | ArgV identity_identifier

datatype message = Lit string | Sprintf string "fmt_arg list"

datatype error =
    New string
  | Errorf string "fmt_arg list"
  | WithMessage error message
  | Wrap error string

text \<open>\<^verbatim>\<open>InstallInput\<close>.\<close>

record install_input =
  Name :: string
  Version :: string
  Language :: string
  PackageFile :: string
  Path :: string
  NewLifecycle :: bool

text \<open>\<^verbatim>\<open>cobra.Command\<close>: the one field the workflow writes.\<close>

record command =
  SilenceUsage :: bool

text \<open>The protobuf messages the workflow reads or builds. A field of message type is a
  Go pointer, \<open>None\<close> when nil.\<close>

record chaincode_id =
  ccid_Path :: string
  ccid_Name :: string
  ccid_Version :: string

record chaincode_input =
  Args :: "bytes list"

record chaincode_spec =
  spec_ChaincodeId :: "chaincode_id option"
  spec_Input :: "chaincode_input option"

record chaincode_deployment_spec =
  cds_ChaincodeSpec :: "chaincode_spec option"
  cds_CodePackage :: bytes

record chaincode_invocation_spec =
  cis_ChaincodeSpec :: "chaincode_spec option"

record envelope =
  env_Payload :: bytes
  env_Signature :: bytes

record signed_chaincode_deployment_spec =
  scds_ChaincodeDeploymentSpec :: bytes
  scds_InstantiationPolicy :: bytes

record install_chaincode_args =
  args_Name :: string
  args_Version :: string
  args_ChaincodeInstallPackage :: bytes

record install_chaincode_result =
  Hash :: bytes

record proposal =
  prop_Header :: bytes
  prop_Payload :: bytes

record signed_proposal =
  ProposalBytes :: bytes
  Signature :: bytes

text \<open>\<^verbatim>\<open>pb.Response\<close>; \<open>Status\<close> is an \<^verbatim>\<open>int32\<close>.\<close>

record response =
  Status :: "32 word"
  Message :: string
  Payload :: bytes

record proposal_response =
  Response :: "response option"

datatype header_type = ENDORSER_TRANSACTION | OTHER_HEADER_TYPE

text \<open>A \<^verbatim>\<open>proto.Message\<close> interface value as the package codec hands it out: the nil
  interface, a \<^verbatim>\<open>*pb.ChaincodeDeploymentSpec\<close> (possibly a nil pointer), a
  \<^verbatim>\<open>*cb.Envelope\<close> (possibly a nil pointer), or a value of another dynamic type.\<close>

datatype package_object =
    NilObject
  | CDSObject "chaincode_deployment_spec option"
  | EnvelopeObject "envelope option"
  | OtherObject

text \<open>\<^verbatim>\<open>msp.SigningIdentity\<close>. \<open>Serialize\<close> gives both Go results, the bytes and the
  error (\<open>None\<close> when nil), because \<^verbatim>\<open>install\<close> goes on with the bytes whatever the
  error is.\<close>

record signing_identity =
  Serialize :: "bytes \<times> error option"
  GetIdentifier :: identity_identifier
  Sign :: "bytes \<Rightarrow> error + bytes"

text \<open>\<^verbatim>\<open>pb.EndorserClient\<close>: the result of \<^verbatim>\<open>ProcessProposal\<close> on a signed proposal,
  an error or a response pointer (\<open>None\<close> when nil).\<close>

type_synonym endorser_client = "signed_proposal \<Rightarrow> error + proposal_response option"

text \<open>\<^verbatim>\<open>Installer\<close>. \<open>Reader\<close> is \<^verbatim>\<open>Reader.ReadFile\<close>.\<close>

record installer =
  Command :: "command option"
  EndorserClients :: "endorser_client list"
  Input :: install_input
  Reader :: "string \<Rightarrow> error + bytes"
  Signer :: signing_identity

text \<open>The package-level variables that \<^verbatim>\<open>setInput\<close> reads (set from the command line
  flags).\<close>

record flags =
  chaincodeName :: string
  chaincodeVersion :: string
  chaincodePath :: string
  newLifecycle :: bool

text \<open>Constants and functions of other packages, taken as parameters:
  \<open>chainFuncName\<close>, \<open>newLifecycleName\<close> (package variables of peer/chaincode),
  \<open>UndefinedParamValue\<close> (peer/common), \<open>Status_SUCCESS\<close> (protos/common),
  \<^verbatim>\<open>ioutil.ReadFile\<close>, \<^verbatim>\<open>ccprovider.GetCCPackage\<close> followed by
  \<^verbatim>\<open>GetPackageObject\<close>, \<^verbatim>\<open>ccpackage.ExtractSignedCCDepSpec\<close>,
  \<^verbatim>\<open>protoutil.GetChaincodeDeploymentSpec\<close> (with the platform registry),
  \<^verbatim>\<open>ccprovider.ChaincodePackageExists\<close> (both Go results),
  \<^verbatim>\<open>getChaincodeSpec\<close>, \<^verbatim>\<open>getChaincodeDeploymentSpec\<close>,
  \<^verbatim>\<open>proto.Marshal\<close> on the install arguments, \<^verbatim>\<open>proto.Unmarshal\<close> into the install
  result, \<^verbatim>\<open>protoutil.CreateProposalFromCIS\<close>, \<^verbatim>\<open>protoutil.CreateInstallProposalFromCDS\<close>
  and \<^verbatim>\<open>protoutil.GetSignedProposal\<close>.\<close>

record collaborators =
  chainFuncName :: string
  newLifecycleName :: string
  UndefinedParamValue :: string
  Status_SUCCESS :: "32 word"
  ioutil_ReadFile :: "string \<Rightarrow> error + bytes"
  GetCCPackage :: "bytes \<Rightarrow> error + package_object"
  ExtractSignedCCDepSpec :: "envelope \<Rightarrow> error + signed_chaincode_deployment_spec"
  GetChaincodeDeploymentSpec :: "bytes \<Rightarrow> error + chaincode_deployment_spec"
  ChaincodePackageExists :: "string \<Rightarrow> string \<Rightarrow> bool \<times> error option"
  getChaincodeSpec :: "command option \<Rightarrow> error + chaincode_spec"
  getChaincodeDeploymentSpec :: "chaincode_spec \<Rightarrow> bool \<Rightarrow> error + chaincode_deployment_spec"
  Marshal :: "install_chaincode_args \<Rightarrow> error + bytes"
  Unmarshal :: "bytes \<Rightarrow> error + install_chaincode_result"
  CreateProposalFromCIS ::
    "header_type \<Rightarrow> string \<Rightarrow> chaincode_invocation_spec \<Rightarrow> bytes \<Rightarrow> error + proposal"
  CreateInstallProposalFromCDS :: "package_object \<Rightarrow> bytes \<Rightarrow> error + proposal"
  GetSignedProposal :: "proposal \<Rightarrow> signing_identity \<Rightarrow> error + signed_proposal"

subsection \<open>Results and the record of calls\<close>

text \<open>A run of a source function ends in one of three ways: it returns a value (\<open>()\<close>
  for a nil error), it returns an error, or it panics.\<close>

datatype panic = IndexOutOfRange | NilDereference

datatype 'a outcome = Return 'a | Fail error | Panic panic

text \<open>One event per call of a collaborator. \<open>ProcessProposal k sp\<close> is the call of
  \<^verbatim>\<open>EndorserClients[k].ProcessProposal\<close> on \<open>sp\<close>.\<close>

datatype event =
    Reader_ReadFile string
  | Ioutil_ReadFile string
  | Signer_Serialize
  | Call_GetCCPackage
  | Call_ExtractSignedCCDepSpec
  | Call_GetChaincodeDeploymentSpec
  | Call_ChaincodePackageExists string string
  | Call_getChaincodeSpec
  | Call_getChaincodeDeploymentSpec
  | Call_Marshal
  | Call_Unmarshal bytes
  | Call_CreateProposalFromCIS bytes
  | Call_CreateInstallProposalFromCDS
  | Call_GetSignedProposal
  | ProcessProposal nat signed_proposal
  | Infof string

type_synonym 'a run = "'a outcome \<times> event list"

text \<open>\<open>logged ev r\<close>: the call \<open>ev\<close> is made, then the run \<open>r\<close> follows.\<close>

definition logged :: "event \<Rightarrow> 'a run \<Rightarrow> 'a run" where
  "logged ev r = (fst r, ev # snd r)"

text \<open>\<open>and_then m f\<close>: the Go idiom \<^verbatim>\<open>x, err := m(); if err != nil { return err }\<close>,
  followed by \<open>f x\<close>. An error or a panic of \<open>m\<close> ends the run.\<close>

definition and_then :: "'a run \<Rightarrow> ('a \<Rightarrow> 'b run) \<Rightarrow> 'b run" where
  "and_then m f =
     (case fst m of
        Return x \<Rightarrow> (fst (f x), snd m @ snd (f x))
      | Fail err \<Rightarrow> (Fail err, snd m)
      | Panic p \<Rightarrow> (Panic p, snd m))"

subsection \<open>The source functions\<close>

text \<open>\<^verbatim>\<open>Installer.validateInput\<close>: \<open>None\<close> is the nil error.\<close>

definition validateInput :: "installer \<Rightarrow> error option" where
  "validateInput i =
     (if PackageFile (Input i) = [] then
        Some (New ''chaincode install package must be provided'')
      else if Name (Input i) = [] then
        Some (New ''chaincode name must be specified'')
      else if Version (Input i) = [] then
        Some (New ''chaincode version must be specified'')
      else if Path (Input i) \<noteq> [] then
        Some (New ''chaincode path parameter not supported by _lifecycle'')
      else None)"

text \<open>\<^verbatim>\<open>Installer.submitInstallProposal\<close>. Indexing the empty slice panics before any
  call is made.\<close>

definition submitInstallProposal :: "collaborators \<Rightarrow> installer \<Rightarrow> signed_proposal \<Rightarrow> unit run" where
  "submitInstallProposal env i signedProposal =
     (case EndorserClients i of
        [] \<Rightarrow> (Panic IndexOutOfRange, [])
      | client # _ \<Rightarrow>
          logged (ProcessProposal 0 signedProposal)
            (case client signedProposal of
               Inl err \<Rightarrow> (Fail (WithMessage err (Lit ''error endorsing chaincode install'')), [])
             | Inr None \<Rightarrow>
                 (Fail (New ''error during install: received nil proposal response''), [])
             | Inr (Some proposalResponse) \<Rightarrow>
                 (case Response proposalResponse of
                    None \<Rightarrow>
                      (Fail (New ''error during install: received proposal response with nil response''), [])
                  | Some r \<Rightarrow>
                      if Status r \<noteq> Status_SUCCESS env then
                        (Fail (Errorf ''install failed with status: %d - %s''
                                 [ArgD (sint (Status r)), ArgS (Message r)]), [])
                      else
                        logged (Infof ''Installed remotely: %v'')
                          (if NewLifecycle (Input i) then
                             logged (Call_Unmarshal (Payload r))
                               (case Unmarshal env (Payload r) of
                                  Inl err \<Rightarrow>
                                    (Fail (Wrap err ''error unmarshaling proposal response's response payload''), [])
                                | Inr icr \<Rightarrow>
                                    logged (Infof ''Chaincode code package hash: %x'') (Return (), []))
                           else (Return (), [])))))"

text \<open>\<^verbatim>\<open>Installer.createNewLifecycleInstallProposal\<close>.\<close>

definition createNewLifecycleInstallProposal ::
  "collaborators \<Rightarrow> installer \<Rightarrow> string \<Rightarrow> string \<Rightarrow> bytes \<Rightarrow> bytes \<Rightarrow> proposal run" where
  "createNewLifecycleInstallProposal env i name version pkgBytes creatorBytes =
     (let installChaincodeArgs =
            \<lparr>args_Name = name, args_Version = version, args_ChaincodeInstallPackage = pkgBytes\<rparr>
      in logged Call_Marshal
           (case Marshal env installChaincodeArgs of
              Inl err \<Rightarrow> (Fail (Wrap err ''error marshaling InstallChaincodeArgs''), [])
            | Inr installChaincodeArgsBytes \<Rightarrow>
                (let ccInput = \<lparr>Args = [''InstallChaincode'', installChaincodeArgsBytes]\<rparr>;
                     cis = \<lparr>cis_ChaincodeSpec = Some
                              \<lparr>spec_ChaincodeId = Some
                                 \<lparr>ccid_Path = [], ccid_Name = newLifecycleName env, ccid_Version = []\<rparr>,
                               spec_Input = Some ccInput\<rparr>\<rparr>
                 in logged (Call_CreateProposalFromCIS creatorBytes)
                      (case CreateProposalFromCIS env ENDORSER_TRANSACTION [] cis creatorBytes of
                         Inl err \<Rightarrow>
                           (Fail (WithMessage err
                                    (Lit ''error creating proposal for ChaincodeInvocationSpec'')), [])
                       | Inr proposal \<Rightarrow> (Return proposal, [])))))"

text \<open>\<^verbatim>\<open>Installer.install\<close>, the workflow of the \<^verbatim>\<open>_lifecycle\<close> dialect. After
  \<^verbatim>\<open>Serialize\<close> the source builds a wrapped error when \<open>err\<close> is not nil and drops it
  (there is no \<^verbatim>\<open>return\<close>), so both branches go on with \<open>serializedSigner\<close>.\<close>

definition install :: "collaborators \<Rightarrow> installer \<Rightarrow> unit run" where
  "install env i =
     (case validateInput i of
        Some err \<Rightarrow> (Fail err, [])
      | None \<Rightarrow>
          logged (Reader_ReadFile (PackageFile (Input i)))
            (case Reader i (PackageFile (Input i)) of
               Inl err \<Rightarrow>
                 (Fail (WithMessage err
                          (Sprintf ''error reading chaincode package at %s''
                             [ArgS (PackageFile (Input i))])), [])
             | Inr pkgBytes \<Rightarrow>
                 logged Signer_Serialize
                   (case Serialize (Signer i) of
                      (serializedSigner, err) \<Rightarrow>
                        and_then
                          (createNewLifecycleInstallProposal env i (Name (Input i))
                             (Version (Input i)) pkgBytes serializedSigner)
                          (\<lambda>proposal.
                             logged Call_GetSignedProposal
                               (case GetSignedProposal env proposal (Signer i) of
                                  Inl err \<Rightarrow>
                                    (Fail (WithMessage err
                                             (Sprintf ''error creating signed proposal for %s''
                                                [ArgS (chainFuncName env)])), [])
                                | Inr signedProposal \<Rightarrow>
                                    submitInstallProposal env i signedProposal)))))"

text \<open>\<^verbatim>\<open>getPackageFromFile\<close>. The type assertion to the deployment spec comes first; the
  envelope is tried when that assertion fails or gives a nil pointer.\<close>

definition getPackageFromFile ::
  "collaborators \<Rightarrow> string \<Rightarrow> (package_object \<times> chaincode_deployment_spec) run" where
  "getPackageFromFile env ccPkgFile =
     logged (Ioutil_ReadFile ccPkgFile)
       (case ioutil_ReadFile env ccPkgFile of
          Inl err \<Rightarrow> (Fail err, [])
        | Inr ccPkgBytes \<Rightarrow>
            logged Call_GetCCPackage
              (case GetCCPackage env ccPkgBytes of
                 Inl err \<Rightarrow> (Fail err, [])
               | Inr obj \<Rightarrow>
                   (case obj of
                      CDSObject (Some cds) \<Rightarrow> (Return (obj, cds), [])
                    | EnvelopeObject (Some env') \<Rightarrow>
                        logged Call_ExtractSignedCCDepSpec
                          (case ExtractSignedCCDepSpec env env' of
                             Inl err \<Rightarrow>
                               (Fail (WithMessage err
                                        (Lit ''error extracting valid signed chaincode package'')), [])
                           | Inr sCDS \<Rightarrow>
                               logged Call_GetChaincodeDeploymentSpec
                                 (case GetChaincodeDeploymentSpec env
                                         (scds_ChaincodeDeploymentSpec sCDS) of
                                    Inl err \<Rightarrow>
                                      (Fail (WithMessage err
                                               (Lit ''error extracting chaincode deployment spec'')), [])
                                  | Inr cds \<Rightarrow> (Return (obj, cds), [])))
                    | _ \<Rightarrow> (Fail (New ''error extracting valid chaincode package''), []))))"

text \<open>\<^verbatim>\<open>genChaincodeDeploymentSpec\<close>. Only the boolean of the existence probe is read;
  its error is assigned to the blank identifier.\<close>

definition genChaincodeDeploymentSpec ::
  "collaborators \<Rightarrow> command option \<Rightarrow> string \<Rightarrow> string \<Rightarrow> chaincode_deployment_spec run" where
  "genChaincodeDeploymentSpec env cmd name version =
     logged (Call_ChaincodePackageExists name version)
       (case ChaincodePackageExists env name version of
          (existed, _) \<Rightarrow>
            if existed then
              (Fail (Errorf ''chaincode %s:%s already exists'' [ArgS name, ArgS version]), [])
            else
              logged Call_getChaincodeSpec
                (case getChaincodeSpec env cmd of
                   Inl err \<Rightarrow> (Fail err, [])
                 | Inr spec \<Rightarrow>
                     logged Call_getChaincodeDeploymentSpec
                       (case getChaincodeDeploymentSpec env spec True of
                          Inl err \<Rightarrow>
                            (Fail (WithMessage err
                                     (Sprintf ''error getting chaincode deployment spec for %s''
                                        [ArgS name])), [])
                        | Inr cds \<Rightarrow> (Return cds, []))))"

text \<open>\<^verbatim>\<open>Installer.getLegacyChaincodePackageMessage\<close>. The name and version are read
  through the pointers \<^verbatim>\<open>cds.ChaincodeSpec.ChaincodeId\<close>; a nil pointer on the way
  panics.\<close>

definition getLegacyChaincodePackageMessage :: "collaborators \<Rightarrow> installer \<Rightarrow> package_object run" where
  "getLegacyChaincodePackageMessage env i =
     (if PackageFile (Input i) = [] then
        (if Path (Input i) = UndefinedParamValue env
            \<or> Version (Input i) = UndefinedParamValue env
            \<or> Name (Input i) = UndefinedParamValue env then
           (Fail (Errorf ''must supply value for %s name, path and version parameters''
                    [ArgS (chainFuncName env)]), [])
         else
           and_then (genChaincodeDeploymentSpec env (Command i) (Name (Input i)) (Version (Input i)))
             (\<lambda>ccPkgMsg. (Return (CDSObject (Some ccPkgMsg)), [])))
      else
        and_then (getPackageFromFile env (PackageFile (Input i)))
          (\<lambda>(ccPkgMsg, cds).
             case cds_ChaincodeSpec cds of
               None \<Rightarrow> (Panic NilDereference, [])
             | Some spec \<Rightarrow>
                 (case spec_ChaincodeId spec of
                    None \<Rightarrow> (Panic NilDereference, [])
                  | Some ccid \<Rightarrow>
                      (let cName = ccid_Name ccid; cVersion = ccid_Version ccid
                       in if Name (Input i) \<noteq> [] \<and> Name (Input i) \<noteq> cName then
                            (Fail (Errorf ''chaincode name %s does not match name %s in package''
                                     [ArgS (Name (Input i)), ArgS cName]), [])
                          else if Version (Input i) \<noteq> [] \<and> Version (Input i) \<noteq> cVersion then
                            (Fail (Errorf ''chaincode version %s does not match version %s in packages''
                                     [ArgS (Version (Input i)), ArgS cVersion]), [])
                          else (Return ccPkgMsg, [])))))"

text \<open>\<^verbatim>\<open>Installer.createLegacyInstallProposal\<close>.\<close>

definition createLegacyInstallProposal ::
  "collaborators \<Rightarrow> installer \<Rightarrow> package_object \<Rightarrow> proposal run" where
  "createLegacyInstallProposal env i msg =
     logged Signer_Serialize
       (case Serialize (Signer i) of
          (creator, Some err) \<Rightarrow>
            (Fail (WithMessage err
                     (Sprintf ''error serializing identity for %s''
                        [ArgV (GetIdentifier (Signer i))])), [])
        | (creator, None) \<Rightarrow>
            logged Call_CreateInstallProposalFromCDS
              (case CreateInstallProposalFromCDS env msg creator of
                 Inl err \<Rightarrow>
                   (Fail (WithMessage err
                            (Sprintf ''error creating proposal for %s''
                               [ArgS (chainFuncName env)])), [])
               | Inr prop \<Rightarrow> (Return prop, [])))"

text \<open>\<^verbatim>\<open>Installer.installLegacy\<close>, the workflow of the legacy dialect.\<close>

definition installLegacy :: "collaborators \<Rightarrow> installer \<Rightarrow> unit run" where
  "installLegacy env i =
     and_then (getLegacyChaincodePackageMessage env i)
       (\<lambda>ccPkgMsg.
          and_then (createLegacyInstallProposal env i ccPkgMsg)
            (\<lambda>proposal.
               logged Call_GetSignedProposal
                 (case GetSignedProposal env proposal (Signer i) of
                    Inl err \<Rightarrow>
                      (Fail (WithMessage err
                               (Sprintf ''error creating signed proposal for %s''
                                  [ArgS (chainFuncName env)])), [])
                  | Inr signedProposal \<Rightarrow> submitInstallProposal env i signedProposal)))"

text \<open>\<^verbatim>\<open>Installer.setInput\<close>: a fresh input from the flag variables; the package file is
  the first argument when there is one. \<open>Language\<close> keeps its zero value.\<close>

definition setInput :: "flags \<Rightarrow> string list \<Rightarrow> installer \<Rightarrow> installer" where
  "setInput fl args i =
     i\<lparr>Input :=
         \<lparr>Name = chaincodeName fl, Version = chaincodeVersion fl, Language = [],
          PackageFile = (case args of [] \<Rightarrow> [] | a # _ \<Rightarrow> a),
          Path = chaincodePath fl, NewLifecycle = newLifecycle fl\<rparr>\<rparr>"

text \<open>\<^verbatim>\<open>Installer.installChaincode\<close>.\<close>

definition installChaincode :: "collaborators \<Rightarrow> flags \<Rightarrow> installer \<Rightarrow> string list \<Rightarrow> unit run" where
  "installChaincode env fl i args =
     (let i1 = i\<lparr>Command := map_option (\<lambda>c. c\<lparr>SilenceUsage := True\<rparr>) (Command i)\<rparr>;
          i2 = setInput fl args i1
      in if NewLifecycle (Input i2) then install env i2 else installLegacy env i2)"

subsection \<open>Reading the record of calls\<close>

text \<open>The submissions in a record of calls: the client index and the signed proposal of
  each \<open>ProcessProposal\<close>, in order.\<close>

fun submissions :: "event list \<Rightarrow> (nat \<times> signed_proposal) list" where
  "submissions [] = []"
| "submissions (ProcessProposal k sp # t) = (k, sp) # submissions t"
| "submissions (_ # t) = submissions t"

text \<open>The payloads handed to \<^verbatim>\<open>proto.Unmarshal\<close>, in order.\<close>

fun decodes :: "event list \<Rightarrow> bytes list" where
  "decodes [] = []"
| "decodes (Call_Unmarshal p # t) = p # decodes t"
| "decodes (_ # t) = decodes t"

text \<open>The run returned an error.\<close>

fun is_Fail :: "'a outcome \<Rightarrow> bool" where
  "is_Fail (Fail _) = True"
| "is_Fail _ = False"

text \<open>The four errors of \<^verbatim>\<open>validateInput\<close>.\<close>

definition validation_errors :: "error list" where
  "validation_errors =
     [New ''chaincode install package must be provided'',
      New ''chaincode name must be specified'',
      New ''chaincode version must be specified'',
      New ''chaincode path parameter not supported by _lifecycle'']"

text \<open>A reply of the endorser as the specification classes it: rejected when the
  response pointer is nil, when its inner \<open>Response\<close> is nil, or when the status is not
  the success value.\<close>

definition reply_rejected :: "collaborators \<Rightarrow> proposal_response option \<Rightarrow> bool" where
  "reply_rejected env reply =
     (case reply of
        None \<Rightarrow> True
      | Some pr \<Rightarrow> (case Response pr of None \<Rightarrow> True | Some r \<Rightarrow> Status r \<noteq> Status_SUCCESS env))"

text \<open>The reply carries a response whose payload \<^verbatim>\<open>proto.Unmarshal\<close> refuses.\<close>

definition payload_undecodable :: "collaborators \<Rightarrow> proposal_response option \<Rightarrow> bool" where
  "payload_undecodable env reply =
     (case reply of
        None \<Rightarrow> False
      | Some pr \<Rightarrow>
          (case Response pr of
             None \<Rightarrow> False
           | Some r \<Rightarrow> (case Unmarshal env (Payload r) of Inl _ \<Rightarrow> True | Inr _ \<Rightarrow> False)))"

subsection \<open>A concrete configuration\<close>

text \<open>One set of collaborators and installers on which the statements below are
  evaluated: a package file \<open>pkg.bin\<close> holding a deployment spec for \<open>mycc\<close> version
  \<open>1.0\<close>, a file \<open>signed.bin\<close> holding an envelope around the same spec, an existence
  probe that fails with an error, a decoder that refuses the payload \<open>garbage\<close>, a signer
  that serializes and one that does not, and three endorsers: one that accepts, one that
  accepts with an undecodable payload, one that rejects with status 500.\<close>

definition example_cds :: chaincode_deployment_spec where
  "example_cds =
     \<lparr>cds_ChaincodeSpec = Some
        \<lparr>spec_ChaincodeId = Some
           \<lparr>ccid_Path = ''github.com/example/mycc'', ccid_Name = ''mycc'', ccid_Version = ''1.0''\<rparr>,
         spec_Input = None\<rparr>,
      cds_CodePackage = ''code''\<rparr>"

definition example_signer :: signing_identity where
  "example_signer =
     \<lparr>Serialize = (''creator'', None),
      GetIdentifier = \<lparr>Mspid = ''Org1MSP'', Id = ''admin''\<rparr>,
      Sign = (\<lambda>b. Inr ''signature'')\<rparr>"

definition failing_signer :: signing_identity where
  "failing_signer = example_signer\<lparr>Serialize := ([], Some (New ''serialize failed''))\<rparr>"

definition example_signed_proposal :: signed_proposal where
  "example_signed_proposal = \<lparr>ProposalBytes = ''proposal'', Signature = ''signature''\<rparr>"

definition example_collaborators :: collaborators where
  "example_collaborators =
     \<lparr>chainFuncName = ''chaincode'',
      newLifecycleName = ''_lifecycle'',
      UndefinedParamValue = [],
      Status_SUCCESS = 200,
      ioutil_ReadFile =
        (\<lambda>f. if f = ''pkg.bin'' then Inr ''cds'' else
              if f = ''signed.bin'' then Inr ''envelope'' else Inl (New ''no such file'')),
      GetCCPackage =
        (\<lambda>b. if b = ''cds'' then Inr (CDSObject (Some example_cds)) else
              if b = ''envelope'' then
                Inr (EnvelopeObject (Some \<lparr>env_Payload = ''signed cds'', env_Signature = []\<rparr>))
              else Inl (New ''failed to unmarshal deployment spec from bytes'')),
      ExtractSignedCCDepSpec =
        (\<lambda>e. Inr \<lparr>scds_ChaincodeDeploymentSpec = env_Payload e, scds_InstantiationPolicy = []\<rparr>),
      GetChaincodeDeploymentSpec =
        (\<lambda>b. if b = ''signed cds'' then Inr example_cds else Inl (New ''bad deployment spec'')),
      ChaincodePackageExists = (\<lambda>n v. (False, Some (New ''stat: permission denied''))),
      getChaincodeSpec =
        (\<lambda>c. Inr \<lparr>spec_ChaincodeId = Some
                     \<lparr>ccid_Path = ''github.com/example/mycc'', ccid_Name = ''mycc'',
                      ccid_Version = ''1.0''\<rparr>,
                   spec_Input = None\<rparr>),
      getChaincodeDeploymentSpec =
        (\<lambda>s b. Inr \<lparr>cds_ChaincodeSpec = Some s, cds_CodePackage = ''code''\<rparr>),
      Marshal = (\<lambda>a. Inr (args_Name a @ args_Version a @ args_ChaincodeInstallPackage a)),
      Unmarshal =
        (\<lambda>b. if b = ''garbage'' then Inl (New ''proto: cannot parse invalid wire-format data'')
              else Inr \<lparr>Hash = b\<rparr>),
      CreateProposalFromCIS = (\<lambda>t c cis creator. Inr \<lparr>prop_Header = creator, prop_Payload = ''cis''\<rparr>),
      CreateInstallProposalFromCDS =
        (\<lambda>m creator. Inr \<lparr>prop_Header = creator, prop_Payload = ''cds''\<rparr>),
      GetSignedProposal = (\<lambda>p s. Inr example_signed_proposal)\<rparr>"

definition accepting_client :: endorser_client where
  "accepting_client =
     (\<lambda>sp. Inr (Some \<lparr>Response = Some \<lparr>Status = 200, Message = ''OK'', Payload = ''hash''\<rparr>\<rparr>))"

definition garbage_payload_client :: endorser_client where
  "garbage_payload_client =
     (\<lambda>sp. Inr (Some \<lparr>Response = Some \<lparr>Status = 200, Message = ''OK'', Payload = ''garbage''\<rparr>\<rparr>))"

definition rejecting_client :: endorser_client where
  "rejecting_client =
     (\<lambda>sp. Inr (Some \<lparr>Response = Some \<lparr>Status = 500, Message = ''bad request'', Payload = []\<rparr>\<rparr>))"

definition lifecycle_installer :: installer where
  "lifecycle_installer =
     \<lparr>Command = None,
      EndorserClients = [accepting_client],
      Input = \<lparr>Name = ''mycc'', Version = ''1.0'', Language = [], PackageFile = ''pkg.tar.gz'',
               Path = [], NewLifecycle = True\<rparr>,
      Reader = (\<lambda>f. if f = ''pkg.tar.gz'' then Inr ''package'' else Inl (New ''no such file'')),
      Signer = example_signer\<rparr>"

definition legacy_installer :: installer where
  "legacy_installer =
     lifecycle_installer
       \<lparr>Input := \<lparr>Name = ''mycc'', Version = ''1.0'', Language = [], PackageFile = ''pkg.bin'',
                  Path = [], NewLifecycle = False\<rparr>\<rparr>"

lemmas example_defs =
  example_cds_def example_signer_def failing_signer_def example_signed_proposal_def
  example_collaborators_def accepting_client_def garbage_payload_client_def rejecting_client_def
  lifecycle_installer_def legacy_installer_def

section \<open>Properties\<close>

subsection \<open>The combinators and the entry point\<close>

lemma fst_logged [simp]: "fst (logged ev r) = fst r"
  by (simp add: logged_def)

lemma snd_logged [simp]: "snd (logged ev r) = ev # snd r"
  by (simp add: logged_def)

lemma logged_pair [simp]: "logged ev (x, t) = (x, ev # t)"
  by (simp add: logged_def)

lemma and_then_Return [simp]: "and_then (Return x, t) f = (fst (f x), t @ snd (f x))"
  by (simp add: and_then_def)

lemma and_then_Fail [simp]: "and_then (Fail e, t) f = (Fail e, t)"
  by (simp add: and_then_def)

lemma and_then_Panic [simp]: "and_then (Panic p, t) f = (Panic p, t)"
  by (simp add: and_then_def)

lemma submissions_append [simp]: "submissions (s @ t) = submissions s @ submissions t"
  by (induction s rule: submissions.induct) simp_all

lemma decodes_append [simp]: "decodes (s @ t) = decodes s @ decodes t"
  by (induction s rule: decodes.induct) simp_all

lemma snd_and_then:
  "snd (and_then m f) = snd m @ (case fst m of Return x \<Rightarrow> snd (f x) | _ \<Rightarrow> [])"
  by (simp add: and_then_def split: outcome.splits)

lemma fst_and_then:
  "fst (and_then m f) = (case fst m of Return x \<Rightarrow> fst (f x) | Fail e \<Rightarrow> Fail e | Panic p \<Rightarrow> Panic p)"
  by (simp add: and_then_def split: outcome.splits)

lemma NewLifecycle_setInput: "NewLifecycle (Input (setInput fl args j)) = newLifecycle fl"
  by (simp add: setInput_def)

lemma installChaincode_dispatch:
  "installChaincode env fl j args =
     (if newLifecycle fl
      then install env (setInput fl args (j\<lparr>Command := map_option (\<lambda>c. c\<lparr>SilenceUsage := True\<rparr>) (Command j)\<rparr>))
      else installLegacy env (setInput fl args (j\<lparr>Command := map_option (\<lambda>c. c\<lparr>SilenceUsage := True\<rparr>) (Command j)\<rparr>)))"
  unfolding installChaincode_def Let_def NewLifecycle_setInput by (rule refl)

lemma Input_setInput:
  "Input (setInput fl args j) =
     \<lparr>Name = chaincodeName fl, Version = chaincodeVersion fl, Language = [],
      PackageFile = (case args of [] \<Rightarrow> [] | a # _ \<Rightarrow> a),
      Path = chaincodePath fl, NewLifecycle = newLifecycle fl\<rparr>"
  by (simp add: setInput_def)

subsection \<open>Input validation\<close>

lemma install_invalid:
  assumes "PackageFile (Input i) = [] \<or> Name (Input i) = [] \<or> Version (Input i) = []
             \<or> Path (Input i) \<noteq> []"
  shows "\<exists>err. err \<in> set validation_errors
           \<and> validateInput i = Some err \<and> install env i = (Fail err, [])"
proof (cases "validateInput i")
  case None
  with assms show ?thesis
    by (auto simp: validateInput_def split: if_splits)
next
  case (Some err)
  then have m: "err \<in> set validation_errors"
    by (auto simp: validateInput_def validation_errors_def split: if_splits)
  from Some have inst: "install env i = (Fail err, [])"
    by (simp add: install_def)
  from m Some inst show ?thesis
    by (intro exI [of _ err] conjI)
qed

text \<open>
  \<^bold>\<open>C1.\<close> Under the \<^verbatim>\<open>_lifecycle\<close> dialect, when the package file is empty, or the
  name is empty, or the version is empty, or the path is not empty, \<^verbatim>\<open>install\<close> returns
  one of the four validation errors and its record of calls is empty: neither the file
  reader nor the endorser client, nor any other collaborator, has been called. The second
  part is the same statement from the entry point \<^verbatim>\<open>installChaincode\<close>, where the input
  is built from the flags and the arguments.
\<close>

theorem lifecycle_validation_before_io:
  "(PackageFile (Input i) = [] \<or> Name (Input i) = [] \<or> Version (Input i) = []
      \<or> Path (Input i) \<noteq> [] \<longrightarrow>
      (\<exists>err. err \<in> set validation_errors
          \<and> validateInput i = Some err \<and> install env i = (Fail err, [])))
   \<and> (newLifecycle fl
        \<and> (args = [] \<or> hd args = [] \<or> chaincodeName fl = [] \<or> chaincodeVersion fl = []
             \<or> chaincodePath fl \<noteq> []) \<longrightarrow>
      (\<exists>err. err \<in> set validation_errors
          \<and> installChaincode env fl j args = (Fail err, [])))"
proof (intro conjI impI)
  assume "PackageFile (Input i) = [] \<or> Name (Input i) = [] \<or> Version (Input i) = []
      \<or> Path (Input i) \<noteq> []"
  then show "\<exists>err. err \<in> set validation_errors
          \<and> validateInput i = Some err \<and> install env i = (Fail err, [])"
    by (rule install_invalid)
next
  let ?i = "setInput fl args (j\<lparr>Command := map_option (\<lambda>c. c\<lparr>SilenceUsage := True\<rparr>) (Command j)\<rparr>)"
  assume a: "newLifecycle fl
        \<and> (args = [] \<or> hd args = [] \<or> chaincodeName fl = [] \<or> chaincodeVersion fl = []
             \<or> chaincodePath fl \<noteq> [])"
  then have "PackageFile (Input ?i) = [] \<or> Name (Input ?i) = [] \<or> Version (Input ?i) = []
      \<or> Path (Input ?i) \<noteq> []"
    by (cases args) (auto simp: Input_setInput)
  from install_invalid [OF this, of env] a
  show "\<exists>err. err \<in> set validation_errors
          \<and> installChaincode env fl j args = (Fail err, [])"
    by (auto simp: installChaincode_dispatch)
qed

theorem lifecycle_validation_before_io_witness:
  "newLifecycle \<lparr>chaincodeName = ''mycc'', chaincodeVersion = ''1.0'', chaincodePath = [],
                 newLifecycle = True\<rparr>
   \<and> installChaincode example_collaborators
        \<lparr>chaincodeName = ''mycc'', chaincodeVersion = ''1.0'', chaincodePath = [],
         newLifecycle = True\<rparr> lifecycle_installer []
       = (Fail (New ''chaincode install package must be provided''), [])
   \<and> Path (Input (lifecycle_installer\<lparr>Input := Input lifecycle_installer\<lparr>Path := ''src/mycc''\<rparr>\<rparr>)) \<noteq> []
   \<and> install example_collaborators
        (lifecycle_installer\<lparr>Input := Input lifecycle_installer\<lparr>Path := ''src/mycc''\<rparr>\<rparr>)
       = (Fail (New ''chaincode path parameter not supported by _lifecycle''), [])"
  using lifecycle_validation_before_io
    [of "lifecycle_installer\<lparr>Input := Input lifecycle_installer\<lparr>Path := ''src/mycc''\<rparr>\<rparr>"
        example_collaborators
        "\<lparr>chaincodeName = ''mycc'', chaincodeVersion = ''1.0'', chaincodePath = [],
         newLifecycle = True\<rparr>" "[]" lifecycle_installer]
  by (simp add: validateInput_def lifecycle_installer_def installChaincode_dispatch
        install_def Input_setInput)

subsection \<open>Package resolution\<close>

text \<open>
  \<^bold>\<open>C7.\<close> Once the file is read and the codec has given a package object:
  a non-nil deployment spec is returned as it is, and the envelope is not looked at (no
  unwrap call is recorded); a non-nil envelope is unwrapped in two steps, and a failure of
  either step is an error; every other object (the nil interface, a nil pointer of either
  type, another type) is the error ``error extracting valid chaincode package''.
\<close>

theorem package_shape_resolution:
  assumes "ioutil_ReadFile env f = Inr b" and "GetCCPackage env b = Inr obj"
  shows "(\<forall>cds. obj = CDSObject (Some cds) \<longrightarrow>
            getPackageFromFile env f = (Return (obj, cds), [Ioutil_ReadFile f, Call_GetCCPackage]))
       \<and> (\<forall>e. obj = EnvelopeObject (Some e) \<longrightarrow>
            getPackageFromFile env f =
              (case ExtractSignedCCDepSpec env e of
                 Inl err \<Rightarrow>
                   (Fail (WithMessage err (Lit ''error extracting valid signed chaincode package'')),
                    [Ioutil_ReadFile f, Call_GetCCPackage, Call_ExtractSignedCCDepSpec])
               | Inr sCDS \<Rightarrow>
                   (case GetChaincodeDeploymentSpec env (scds_ChaincodeDeploymentSpec sCDS) of
                      Inl err \<Rightarrow>
                        (Fail (WithMessage err (Lit ''error extracting chaincode deployment spec'')),
                         [Ioutil_ReadFile f, Call_GetCCPackage, Call_ExtractSignedCCDepSpec,
                          Call_GetChaincodeDeploymentSpec])
                    | Inr cds \<Rightarrow>
                        (Return (obj, cds),
                         [Ioutil_ReadFile f, Call_GetCCPackage, Call_ExtractSignedCCDepSpec,
                          Call_GetChaincodeDeploymentSpec]))))
       \<and> ((\<forall>cds. obj \<noteq> CDSObject (Some cds)) \<and> (\<forall>e. obj \<noteq> EnvelopeObject (Some e)) \<longrightarrow>
            getPackageFromFile env f =
              (Fail (New ''error extracting valid chaincode package''),
               [Ioutil_ReadFile f, Call_GetCCPackage]))"
  using assms
  by (auto simp: getPackageFromFile_def split: package_object.splits option.splits sum.splits)

theorem package_shape_resolution_witness:
  "ioutil_ReadFile example_collaborators ''signed.bin'' = Inr ''envelope''
   \<and> GetCCPackage example_collaborators ''envelope''
       = Inr (EnvelopeObject (Some \<lparr>env_Payload = ''signed cds'', env_Signature = []\<rparr>))
   \<and> getPackageFromFile example_collaborators ''signed.bin''
       = (Return (EnvelopeObject (Some \<lparr>env_Payload = ''signed cds'', env_Signature = []\<rparr>),
                  example_cds),
          [Ioutil_ReadFile ''signed.bin'', Call_GetCCPackage, Call_ExtractSignedCCDepSpec,
           Call_GetChaincodeDeploymentSpec])
   \<and> ioutil_ReadFile example_collaborators ''pkg.bin'' = Inr ''cds''
   \<and> GetCCPackage example_collaborators ''cds'' = Inr (CDSObject (Some example_cds))
   \<and> getPackageFromFile example_collaborators ''pkg.bin''
       = (Return (CDSObject (Some example_cds), example_cds),
          [Ioutil_ReadFile ''pkg.bin'', Call_GetCCPackage])"
  using package_shape_resolution
    [of example_collaborators "''signed.bin''" "''envelope''"
        "EnvelopeObject (Some \<lparr>env_Payload = ''signed cds'', env_Signature = []\<rparr>)"]
    package_shape_resolution
    [of example_collaborators "''pkg.bin''" "''cds''" "CDSObject (Some example_cds)"]
  by (simp add: example_collaborators_def)

lemma getPackageFromFile_Return:
  assumes "getPackageFromFile env f = (Return (msg, cds), t)"
  shows "\<exists>b. ioutil_ReadFile env f = Inr b \<and> GetCCPackage env b = Inr msg
              \<and> (\<forall>c. msg = CDSObject (Some c) \<longrightarrow> c = cds)"
  using assms
  by (auto simp: getPackageFromFile_def split: package_object.splits option.splits sum.splits)

lemma submissions_getPackageFromFile: "submissions (snd (getPackageFromFile env f)) = []"
  by (simp add: getPackageFromFile_def split: package_object.splits option.splits sum.splits)

text \<open>Without the \<^verbatim>\<open>ChaincodeSpec\<close> or the \<^verbatim>\<open>ChaincodeId\<close> pointer the
  descriptor carries no name and version, and reading them panics.\<close>

lemma legacy_nil_chaincode_id_panics:
  assumes "PackageFile (Input i) \<noteq> []"
    and "getPackageFromFile env (PackageFile (Input i)) = (Return (msg, cds), t)"
    and "cds_ChaincodeSpec cds = None
         \<or> (\<exists>spec. cds_ChaincodeSpec cds = Some spec \<and> spec_ChaincodeId spec = None)"
  shows "getLegacyChaincodePackageMessage env i = (Panic NilDereference, t)"
  using assms by (auto simp: getLegacyChaincodePackageMessage_def)

text \<open>
  \<^bold>\<open>C3.\<close> Legacy dialect, a package file that parses into a descriptor carrying a
  chaincode id: when the caller's name is not empty and differs from the embedded name,
  the resolution returns the name-mismatch error; when the name passes and the caller's
  version is not empty and differs from the embedded version, it returns the
  version-mismatch error. In both cases the legacy workflow ends with the same error after
  the calls of the resolution only, without any submission. The comparison is equality of
  the two strings.
\<close>

theorem legacy_identity_mismatch:
  assumes "PackageFile (Input i) \<noteq> []"
    and "getPackageFromFile env (PackageFile (Input i)) = (Return (msg, cds), t)"
    and "cds_ChaincodeSpec cds = Some spec" and "spec_ChaincodeId spec = Some ccid"
  shows "(Name (Input i) \<noteq> [] \<and> Name (Input i) \<noteq> ccid_Name ccid \<longrightarrow>
            getLegacyChaincodePackageMessage env i =
              (Fail (Errorf ''chaincode name %s does not match name %s in package''
                       [ArgS (Name (Input i)), ArgS (ccid_Name ccid)]), t)
            \<and> installLegacy env i =
              (Fail (Errorf ''chaincode name %s does not match name %s in package''
                       [ArgS (Name (Input i)), ArgS (ccid_Name ccid)]), t))
       \<and> ((Name (Input i) = [] \<or> Name (Input i) = ccid_Name ccid)
            \<and> Version (Input i) \<noteq> [] \<and> Version (Input i) \<noteq> ccid_Version ccid \<longrightarrow>
            getLegacyChaincodePackageMessage env i =
              (Fail (Errorf ''chaincode version %s does not match version %s in packages''
                       [ArgS (Version (Input i)), ArgS (ccid_Version ccid)]), t)
            \<and> installLegacy env i =
              (Fail (Errorf ''chaincode version %s does not match version %s in packages''
                       [ArgS (Version (Input i)), ArgS (ccid_Version ccid)]), t))
       \<and> ((Name (Input i) \<noteq> [] \<and> Name (Input i) \<noteq> ccid_Name ccid)
            \<or> (Version (Input i) \<noteq> [] \<and> Version (Input i) \<noteq> ccid_Version ccid) \<longrightarrow>
            is_Fail (fst (getLegacyChaincodePackageMessage env i))
            \<and> submissions (snd (installLegacy env i)) = [])"
proof -
  have nosub: "submissions t = []"
    using assms(2)
    by (auto simp: getPackageFromFile_def split: package_object.splits option.splits sum.splits)
  have name: "getLegacyChaincodePackageMessage env i =
              (Fail (Errorf ''chaincode name %s does not match name %s in package''
                       [ArgS (Name (Input i)), ArgS (ccid_Name ccid)]), t)"
    if "Name (Input i) \<noteq> []" "Name (Input i) \<noteq> ccid_Name ccid"
    using assms that by (simp add: getLegacyChaincodePackageMessage_def Let_def)
  have version: "getLegacyChaincodePackageMessage env i =
              (Fail (Errorf ''chaincode version %s does not match version %s in packages''
                       [ArgS (Version (Input i)), ArgS (ccid_Version ccid)]), t)"
    if "Name (Input i) = [] \<or> Name (Input i) = ccid_Name ccid"
       "Version (Input i) \<noteq> []" "Version (Input i) \<noteq> ccid_Version ccid"
    using assms that by (auto simp: getLegacyChaincodePackageMessage_def Let_def)
  have lift: "installLegacy env i = (Fail e, t)"
    if "getLegacyChaincodePackageMessage env i = (Fail e, t)" for e
    using that by (simp add: installLegacy_def)
  show ?thesis
  proof (intro conjI impI)
    assume a: "Name (Input i) \<noteq> [] \<and> Name (Input i) \<noteq> ccid_Name ccid"
    then show "getLegacyChaincodePackageMessage env i =
              (Fail (Errorf ''chaincode name %s does not match name %s in package''
                       [ArgS (Name (Input i)), ArgS (ccid_Name ccid)]), t)"
      using name by simp
    then show "installLegacy env i =
              (Fail (Errorf ''chaincode name %s does not match name %s in package''
                       [ArgS (Name (Input i)), ArgS (ccid_Name ccid)]), t)"
      by (rule lift)
  next
    assume a: "(Name (Input i) = [] \<or> Name (Input i) = ccid_Name ccid)
            \<and> Version (Input i) \<noteq> [] \<and> Version (Input i) \<noteq> ccid_Version ccid"
    then show "getLegacyChaincodePackageMessage env i =
              (Fail (Errorf ''chaincode version %s does not match version %s in packages''
                       [ArgS (Version (Input i)), ArgS (ccid_Version ccid)]), t)"
      using version by simp
    then show "installLegacy env i =
              (Fail (Errorf ''chaincode version %s does not match version %s in packages''
                       [ArgS (Version (Input i)), ArgS (ccid_Version ccid)]), t)"
      by (rule lift)
  next
    assume a: "(Name (Input i) \<noteq> [] \<and> Name (Input i) \<noteq> ccid_Name ccid)
            \<or> (Version (Input i) \<noteq> [] \<and> Version (Input i) \<noteq> ccid_Version ccid)"
    then have "\<exists>e. getLegacyChaincodePackageMessage env i = (Fail e, t)"
      using name version by blast
    then obtain e where e: "getLegacyChaincodePackageMessage env i = (Fail e, t)" ..
    from e show "is_Fail (fst (getLegacyChaincodePackageMessage env i))" by simp
    from lift [OF e] nosub show "submissions (snd (installLegacy env i)) = []" by simp
  qed
qed

theorem legacy_identity_mismatch_witness:
  "PackageFile (Input (legacy_installer\<lparr>Input := Input legacy_installer\<lparr>Name := ''othercc''\<rparr>\<rparr>)) \<noteq> []
   \<and> getPackageFromFile example_collaborators ''pkg.bin''
       = (Return (CDSObject (Some example_cds), example_cds),
          [Ioutil_ReadFile ''pkg.bin'', Call_GetCCPackage])
   \<and> ''othercc'' \<noteq> ''mycc''
   \<and> installLegacy example_collaborators
        (legacy_installer\<lparr>Input := Input legacy_installer\<lparr>Name := ''othercc''\<rparr>\<rparr>)
       = (Fail (Errorf ''chaincode name %s does not match name %s in package''
                  [ArgS ''othercc'', ArgS ''mycc'']),
          [Ioutil_ReadFile ''pkg.bin'', Call_GetCCPackage])
   \<and> ''2.0'' \<noteq> ''1.0''
   \<and> installLegacy example_collaborators
        (legacy_installer\<lparr>Input := Input legacy_installer\<lparr>Version := ''2.0''\<rparr>\<rparr>)
       = (Fail (Errorf ''chaincode version %s does not match version %s in packages''
                  [ArgS ''2.0'', ArgS ''1.0'']),
          [Ioutil_ReadFile ''pkg.bin'', Call_GetCCPackage])"
proof -
  have g: "getPackageFromFile example_collaborators ''pkg.bin''
       = (Return (CDSObject (Some example_cds), example_cds),
          [Ioutil_ReadFile ''pkg.bin'', Call_GetCCPackage])"
    by (simp add: getPackageFromFile_def example_collaborators_def)
  show ?thesis
    using g legacy_identity_mismatch
      [of "legacy_installer\<lparr>Input := Input legacy_installer\<lparr>Name := ''othercc''\<rparr>\<rparr>"
          example_collaborators "CDSObject (Some example_cds)" example_cds
          "[Ioutil_ReadFile ''pkg.bin'', Call_GetCCPackage]"
          "\<lparr>spec_ChaincodeId = Some
             \<lparr>ccid_Path = ''github.com/example/mycc'', ccid_Name = ''mycc'', ccid_Version = ''1.0''\<rparr>,
            spec_Input = None\<rparr>"
          "\<lparr>ccid_Path = ''github.com/example/mycc'', ccid_Name = ''mycc'', ccid_Version = ''1.0''\<rparr>"]
      legacy_identity_mismatch
      [of "legacy_installer\<lparr>Input := Input legacy_installer\<lparr>Version := ''2.0''\<rparr>\<rparr>"
          example_collaborators "CDSObject (Some example_cds)" example_cds
          "[Ioutil_ReadFile ''pkg.bin'', Call_GetCCPackage]"
          "\<lparr>spec_ChaincodeId = Some
             \<lparr>ccid_Path = ''github.com/example/mycc'', ccid_Name = ''mycc'', ccid_Version = ''1.0''\<rparr>,
            spec_Input = None\<rparr>"
          "\<lparr>ccid_Path = ''github.com/example/mycc'', ccid_Name = ''mycc'', ccid_Version = ''1.0''\<rparr>"]
    by (simp add: legacy_installer_def lifecycle_installer_def example_cds_def)
qed

text \<open>
  \<^bold>\<open>C6.\<close> Legacy dialect, a package file that parses into a descriptor whose
  embedded name and version equal the caller's: the resolution returns the package object
  that the codec produced from the bytes of the file, unchanged; when that object is a
  deployment spec, it is the descriptor the name and version were read from.
\<close>

theorem legacy_matching_identity_resolves:
  assumes "PackageFile (Input i) \<noteq> []"
    and "getPackageFromFile env (PackageFile (Input i)) = (Return (msg, cds), t)"
    and "cds_ChaincodeSpec cds = Some spec" and "spec_ChaincodeId spec = Some ccid"
    and "Name (Input i) = ccid_Name ccid" and "Version (Input i) = ccid_Version ccid"
  shows "getLegacyChaincodePackageMessage env i = (Return msg, t)
       \<and> (\<exists>b. ioutil_ReadFile env (PackageFile (Input i)) = Inr b \<and> GetCCPackage env b = Inr msg)
       \<and> (\<forall>c. msg = CDSObject (Some c) \<longrightarrow> c = cds)"
  using assms getPackageFromFile_Return [OF assms(2)]
  by (auto simp: getLegacyChaincodePackageMessage_def Let_def)

theorem legacy_matching_identity_resolves_witness:
  "PackageFile (Input legacy_installer) \<noteq> []
   \<and> getPackageFromFile example_collaborators (PackageFile (Input legacy_installer))
       = (Return (CDSObject (Some example_cds), example_cds), [Ioutil_ReadFile ''pkg.bin'', Call_GetCCPackage])
   \<and> Name (Input legacy_installer) = ''mycc'' \<and> Version (Input legacy_installer) = ''1.0''
   \<and> getLegacyChaincodePackageMessage example_collaborators legacy_installer
       = (Return (CDSObject (Some example_cds)), [Ioutil_ReadFile ''pkg.bin'', Call_GetCCPackage])"
proof -
  have g: "getPackageFromFile example_collaborators (PackageFile (Input legacy_installer))
       = (Return (CDSObject (Some example_cds), example_cds), [Ioutil_ReadFile ''pkg.bin'', Call_GetCCPackage])"
    by (simp add: getPackageFromFile_def example_collaborators_def legacy_installer_def)
  show ?thesis
    using g legacy_matching_identity_resolves
      [of legacy_installer example_collaborators "CDSObject (Some example_cds)" example_cds
          "[Ioutil_ReadFile ''pkg.bin'', Call_GetCCPackage]"
          "\<lparr>spec_ChaincodeId = Some
             \<lparr>ccid_Path = ''github.com/example/mycc'', ccid_Name = ''mycc'', ccid_Version = ''1.0''\<rparr>,
            spec_Input = None\<rparr>"
          "\<lparr>ccid_Path = ''github.com/example/mycc'', ccid_Name = ''mycc'', ccid_Version = ''1.0''\<rparr>"]
    by (simp add: legacy_installer_def lifecycle_installer_def example_cds_def)
qed

text \<open>
  \<^bold>\<open>C10.\<close> \<^verbatim>\<open>genChaincodeDeploymentSpec\<close> fails with the already-exists error
  exactly when the first result of the existence probe is true. When it is false the second
  result, the probe's error, has no effect: the run equals the run with a probe that
  answers false without an error, and the synthesis is started.
\<close>

theorem existence_probe_error_discarded:
  "(fst (ChaincodePackageExists env n v) \<longrightarrow>
      genChaincodeDeploymentSpec env cmd n v =
        (Fail (Errorf ''chaincode %s:%s already exists'' [ArgS n, ArgS v]),
         [Call_ChaincodePackageExists n v]))
   \<and> (\<not> fst (ChaincodePackageExists env n v) \<longrightarrow>
        genChaincodeDeploymentSpec env cmd n v =
          genChaincodeDeploymentSpec (env\<lparr>ChaincodePackageExists := \<lambda>_ _. (False, None)\<rparr>) cmd n v
        \<and> take 2 (snd (genChaincodeDeploymentSpec env cmd n v)) =
            [Call_ChaincodePackageExists n v, Call_getChaincodeSpec])
   \<and> (snd (genChaincodeDeploymentSpec env cmd n v) = [Call_ChaincodePackageExists n v]
        \<longleftrightarrow> fst (ChaincodePackageExists env n v))"
  by (auto simp: genChaincodeDeploymentSpec_def split: prod.splits sum.splits)

theorem existence_probe_error_discarded_witness:
  "ChaincodePackageExists example_collaborators ''mycc'' ''1.0''
     = (False, Some (New ''stat: permission denied''))
   \<and> genChaincodeDeploymentSpec example_collaborators None ''mycc'' ''1.0''
     = (Return example_cds,
        [Call_ChaincodePackageExists ''mycc'' ''1.0'', Call_getChaincodeSpec,
         Call_getChaincodeDeploymentSpec])
   \<and> genChaincodeDeploymentSpec
        (example_collaborators\<lparr>ChaincodePackageExists := \<lambda>_ _. (True, None)\<rparr>) None ''mycc'' ''1.0''
     = (Fail (Errorf ''chaincode %s:%s already exists'' [ArgS ''mycc'', ArgS ''1.0'']),
        [Call_ChaincodePackageExists ''mycc'' ''1.0''])"
  using existence_probe_error_discarded [of example_collaborators "''mycc''" "''1.0''" None]
    existence_probe_error_discarded
      [of "example_collaborators\<lparr>ChaincodePackageExists := \<lambda>_ _. (True, None)\<rparr>" "''mycc''"
          "''1.0''" None]
  by (simp add: genChaincodeDeploymentSpec_def example_collaborators_def example_cds_def)

subsection \<open>Submission and the reply\<close>

text \<open>
  \<^bold>\<open>C4\<close>, as stated, fails. Under the \<^verbatim>\<open>_lifecycle\<close> dialect the endorser replies
  with a non-nil response, a non-nil inner \<open>Response\<close> and the success status, so the
  reply is neither malformed nor a rejection, and \<^verbatim>\<open>submitInstallProposal\<close> still
  returns an error, because the payload does not decode.
\<close>

theorem submit_error_iff_rejected_counterexample:
  "EndorserClients (lifecycle_installer\<lparr>EndorserClients := [garbage_payload_client]\<rparr>)
     = [garbage_payload_client]
   \<and> garbage_payload_client example_signed_proposal
     = Inr (Some \<lparr>Response = Some \<lparr>Status = 200, Message = ''OK'', Payload = ''garbage''\<rparr>\<rparr>)
   \<and> \<not> reply_rejected example_collaborators
          (Some \<lparr>Response = Some \<lparr>Status = 200, Message = ''OK'', Payload = ''garbage''\<rparr>\<rparr>)
   \<and> is_Fail (fst (submitInstallProposal example_collaborators
                     (lifecycle_installer\<lparr>EndorserClients := [garbage_payload_client]\<rparr>)
                     example_signed_proposal))"
  by (simp add: submitInstallProposal_def reply_rejected_def example_defs)

text \<open>
  \<^bold>\<open>C4\<close>, amended. After \<^verbatim>\<open>ProcessProposal\<close> has returned a reply,
  \<^verbatim>\<open>submitInstallProposal\<close> returns an error exactly when the reply is a nil response,
  or has a nil inner \<open>Response\<close>, or has a status other than the success value, or, under
  the \<^verbatim>\<open>_lifecycle\<close> dialect, has a payload that does not decode. The first two cases
  give their own errors; a status other than success gives the error built from the status
  code and the message; none of these is the error that wraps a failure of
  \<^verbatim>\<open>ProcessProposal\<close>, which is returned when \<^verbatim>\<open>ProcessProposal\<close> itself fails.
\<close>

theorem submit_reply_errors:
  assumes "EndorserClients i = client # rest"
  shows "(\<forall>reply. client sp = Inr reply \<longrightarrow>
            (is_Fail (fst (submitInstallProposal env i sp)) \<longleftrightarrow>
               reply_rejected env reply
               \<or> (NewLifecycle (Input i) \<and> payload_undecodable env reply))
          \<and> (reply = None \<longrightarrow>
                submitInstallProposal env i sp =
                  (Fail (New ''error during install: received nil proposal response''),
                   [ProcessProposal 0 sp]))
          \<and> (\<forall>pr. reply = Some pr \<and> Response pr = None \<longrightarrow>
                submitInstallProposal env i sp =
                  (Fail (New ''error during install: received proposal response with nil response''),
                   [ProcessProposal 0 sp]))
          \<and> (\<forall>pr r. reply = Some pr \<and> Response pr = Some r \<and> Status r \<noteq> Status_SUCCESS env \<longrightarrow>
                submitInstallProposal env i sp =
                  (Fail (Errorf ''install failed with status: %d - %s''
                           [ArgD (sint (Status r)), ArgS (Message r)]),
                   [ProcessProposal 0 sp]))
          \<and> (\<forall>e. fst (submitInstallProposal env i sp)
                  \<noteq> Fail (WithMessage e (Lit ''error endorsing chaincode install''))))
       \<and> (\<forall>e. client sp = Inl e \<longrightarrow>
            submitInstallProposal env i sp =
              (Fail (WithMessage e (Lit ''error endorsing chaincode install'')),
               [ProcessProposal 0 sp]))"
  using assms
  by (auto simp: submitInstallProposal_def reply_rejected_def payload_undecodable_def
           split: option.splits sum.splits)

theorem submit_reply_errors_witness:
  "EndorserClients (lifecycle_installer\<lparr>EndorserClients := [rejecting_client]\<rparr>)
     = rejecting_client # []
   \<and> rejecting_client example_signed_proposal
     = Inr (Some \<lparr>Response = Some \<lparr>Status = 500, Message = ''bad request'', Payload = []\<rparr>\<rparr>)
   \<and> Status \<lparr>Status = 500, Message = ''bad request'', Payload = []\<rparr>
     \<noteq> Status_SUCCESS example_collaborators
   \<and> submitInstallProposal example_collaborators
        (lifecycle_installer\<lparr>EndorserClients := [rejecting_client]\<rparr>) example_signed_proposal
     = (Fail (Errorf ''install failed with status: %d - %s'' [ArgD 500, ArgS ''bad request'']),
        [ProcessProposal 0 example_signed_proposal])"
  using submit_reply_errors
    [of "lifecycle_installer\<lparr>EndorserClients := [rejecting_client]\<rparr>" rejecting_client "[]"
        example_signed_proposal example_collaborators]
  by (simp add: rejecting_client_def lifecycle_installer_def example_collaborators_def)

lemma decodes_getPackageFromFile: "decodes (snd (getPackageFromFile env f)) = []"
  by (simp add: getPackageFromFile_def split: package_object.splits option.splits sum.splits)

lemma decodes_genChaincodeDeploymentSpec:
  "decodes (snd (genChaincodeDeploymentSpec env cmd n v)) = []"
  by (simp add: genChaincodeDeploymentSpec_def split: prod.splits sum.splits)

lemma decodes_getLegacyChaincodePackageMessage:
  "decodes (snd (getLegacyChaincodePackageMessage env i)) = []"
  by (simp add: getLegacyChaincodePackageMessage_def snd_and_then decodes_getPackageFromFile
        decodes_genChaincodeDeploymentSpec Let_def
      split: outcome.splits prod.splits option.splits)

lemma decodes_createLegacyInstallProposal:
  "decodes (snd (createLegacyInstallProposal env i msg)) = []"
  by (simp add: createLegacyInstallProposal_def split: prod.splits option.splits sum.splits)

lemma decodes_submit_legacy:
  "\<not> NewLifecycle (Input i) \<Longrightarrow> decodes (snd (submitInstallProposal env i sp)) = []"
  by (simp add: submitInstallProposal_def split: list.splits option.splits sum.splits)

lemma decodes_installLegacy:
  "\<not> NewLifecycle (Input i) \<Longrightarrow> decodes (snd (installLegacy env i)) = []"
  by (simp add: installLegacy_def snd_and_then decodes_getLegacyChaincodePackageMessage
        decodes_createLegacyInstallProposal decodes_submit_legacy
      split: outcome.splits sum.splits)

lemma submissions_genChaincodeDeploymentSpec:
  "submissions (snd (genChaincodeDeploymentSpec env cmd n v)) = []"
  by (simp add: genChaincodeDeploymentSpec_def split: prod.splits sum.splits)

lemma submissions_getLegacyChaincodePackageMessage:
  "submissions (snd (getLegacyChaincodePackageMessage env i)) = []"
  by (simp add: getLegacyChaincodePackageMessage_def snd_and_then submissions_getPackageFromFile
        submissions_genChaincodeDeploymentSpec Let_def
      split: outcome.splits prod.splits option.splits)

lemma submissions_createLegacyInstallProposal:
  "submissions (snd (createLegacyInstallProposal env i msg)) = []"
  by (simp add: createLegacyInstallProposal_def split: prod.splits option.splits sum.splits)

lemma submissions_createNewLifecycleInstallProposal:
  "submissions (snd (createNewLifecycleInstallProposal env i n v b c)) = []"
  by (simp add: createNewLifecycleInstallProposal_def Let_def split: sum.splits)

lemma submissions_submit:
  "submissions (snd (submitInstallProposal env i sp)) =
     (if EndorserClients i = [] then [] else [(0, sp)])"
  by (simp add: submitInstallProposal_def split: list.splits option.splits sum.splits)

lemma submit_Return_clients:
  "fst (submitInstallProposal env i sp) = Return () \<Longrightarrow> EndorserClients i \<noteq> []"
  by (auto simp: submitInstallProposal_def)

lemma submissions_install:
  "(submissions (snd (install env i)) = []
      \<or> (\<exists>sp. submissions (snd (install env i)) = [(0, sp)]))
   \<and> (fst (install env i) = Return () \<longrightarrow>
        (\<exists>sp. submissions (snd (install env i)) = [(0, sp)]))"
  by (auto simp: install_def snd_and_then fst_and_then submissions_submit
        submissions_createNewLifecycleInstallProposal
      dest: submit_Return_clients
      split: outcome.splits prod.splits option.splits sum.splits)

lemma submissions_installLegacy:
  "(submissions (snd (installLegacy env i)) = []
      \<or> (\<exists>sp. submissions (snd (installLegacy env i)) = [(0, sp)]))
   \<and> (fst (installLegacy env i) = Return () \<longrightarrow>
        (\<exists>sp. submissions (snd (installLegacy env i)) = [(0, sp)]))"
  by (auto simp: installLegacy_def snd_and_then fst_and_then submissions_submit
        submissions_getLegacyChaincodePackageMessage submissions_createLegacyInstallProposal
      dest: submit_Return_clients
      split: outcome.splits sum.splits)

lemma EndorserClients_setInput:
  "EndorserClients (setInput fl args (j\<lparr>Command := c\<rparr>)) = EndorserClients j"
  by (simp add: setInput_def)

lemma Signer_setInput:
  "Signer (setInput fl args (j\<lparr>Command := c\<rparr>)) = Signer j"
  by (simp add: setInput_def)

lemma install_reaches_submission:
  assumes "validateInput i = None"
    and "Reader i (PackageFile (Input i)) = Inr pkgBytes"
    and "Marshal env \<lparr>args_Name = Name (Input i), args_Version = Version (Input i),
                       args_ChaincodeInstallPackage = pkgBytes\<rparr> = Inr argsBytes"
    and "CreateProposalFromCIS env ENDORSER_TRANSACTION []
           \<lparr>cis_ChaincodeSpec = Some
              \<lparr>spec_ChaincodeId = Some
                 \<lparr>ccid_Path = [], ccid_Name = newLifecycleName env, ccid_Version = []\<rparr>,
               spec_Input = Some \<lparr>Args = [''InstallChaincode'', argsBytes]\<rparr>\<rparr>\<rparr>
           (fst (Serialize (Signer i))) = Inr prop"
    and "GetSignedProposal env prop (Signer i) = Inr sp"
  shows "install env i =
           (fst (submitInstallProposal env i sp),
            [Reader_ReadFile (PackageFile (Input i)), Signer_Serialize, Call_Marshal,
             Call_CreateProposalFromCIS (fst (Serialize (Signer i))), Call_GetSignedProposal]
            @ snd (submitInstallProposal env i sp))"
  using assms
  by (cases "Serialize (Signer i)")
     (simp add: install_def createNewLifecycleInstallProposal_def Let_def)

lemma installLegacy_reaches_submission:
  assumes "getLegacyChaincodePackageMessage env i = (Return msg, t)"
    and "Serialize (Signer i) = (creator, None)"
    and "CreateInstallProposalFromCDS env msg creator = Inr prop"
    and "GetSignedProposal env prop (Signer i) = Inr sp"
  shows "installLegacy env i =
           (fst (submitInstallProposal env i sp),
            t @ [Signer_Serialize, Call_CreateInstallProposalFromCDS, Call_GetSignedProposal]
            @ snd (submitInstallProposal env i sp))"
  using assms
  by (simp add: installLegacy_def createLegacyInstallProposal_def)

lemma submissions_install_signed:
  "submissions (snd (install env i)) = []
   \<or> (\<exists>p sp. GetSignedProposal env p (Signer i) = Inr sp
         \<and> submissions (snd (install env i)) = [(0, sp)])"
  by (auto simp: install_def snd_and_then fst_and_then submissions_submit
        submissions_createNewLifecycleInstallProposal
      split: outcome.splits prod.splits option.splits sum.splits)

lemma submissions_installLegacy_signed:
  "submissions (snd (installLegacy env i)) = []
   \<or> (\<exists>p sp. GetSignedProposal env p (Signer i) = Inr sp
         \<and> submissions (snd (installLegacy env i)) = [(0, sp)])"
  by (auto simp: installLegacy_def snd_and_then fst_and_then submissions_submit
        submissions_getLegacyChaincodePackageMessage submissions_createLegacyInstallProposal
      split: outcome.splits sum.splits)

lemma install_Return_signed:
  "fst (install env i) = Return () \<Longrightarrow>
     \<exists>p sp. GetSignedProposal env p (Signer i) = Inr sp
         \<and> submissions (snd (install env i)) = [(0, sp)]"
  by (auto simp: install_def snd_and_then fst_and_then submissions_submit
        submissions_createNewLifecycleInstallProposal
      dest: submit_Return_clients
      split: outcome.splits prod.splits option.splits sum.splits)

lemma installLegacy_Return_signed:
  "fst (installLegacy env i) = Return () \<Longrightarrow>
     \<exists>p sp. GetSignedProposal env p (Signer i) = Inr sp
         \<and> submissions (snd (installLegacy env i)) = [(0, sp)]"
  by (auto simp: installLegacy_def snd_and_then fst_and_then submissions_submit
        submissions_getLegacyChaincodePackageMessage submissions_createLegacyInstallProposal
      dest: submit_Return_clients
      split: outcome.splits sum.splits)

lemma decodes_createNewLifecycleInstallProposal:
  "decodes (snd (createNewLifecycleInstallProposal env i n v b c)) = []"
  by (simp add: createNewLifecycleInstallProposal_def Let_def split: sum.splits)

lemma decodes_submit_cases:
  "decodes (snd (submitInstallProposal env i sp)) = []
   \<or> (NewLifecycle (Input i)
       \<and> (\<exists>client rest pr r. EndorserClients i = client # rest \<and> client sp = Inr (Some pr)
            \<and> Response pr = Some r \<and> Status r = Status_SUCCESS env
            \<and> decodes (snd (submitInstallProposal env i sp)) = [Payload r]))"
  by (auto simp: submitInstallProposal_def split: list.splits option.splits sum.splits if_splits)

lemma decodes_install_cases:
  "decodes (snd (install env i)) = []
   \<or> (NewLifecycle (Input i)
       \<and> (\<exists>sp client rest pr r. EndorserClients i = client # rest \<and> client sp = Inr (Some pr)
            \<and> Response pr = Some r \<and> Status r = Status_SUCCESS env
            \<and> decodes (snd (install env i)) = [Payload r]))"
proof -
  have sub: "decodes (snd (submitInstallProposal env i sp)) = []
      \<or> (NewLifecycle (Input i)
       \<and> (\<exists>sp' client rest pr r. EndorserClients i = client # rest \<and> client sp' = Inr (Some pr)
            \<and> Response pr = Some r \<and> Status r = Status_SUCCESS env
            \<and> decodes (snd (submitInstallProposal env i sp)) = [Payload r]))" for sp
    using decodes_submit_cases [of env i sp] by auto
  show ?thesis
  proof (cases "\<exists>sp. snd (install env i) \<noteq> [] \<and> decodes (snd (install env i))
                  = decodes (snd (submitInstallProposal env i sp))")
    case True
    then obtain sp where "decodes (snd (install env i))
                  = decodes (snd (submitInstallProposal env i sp))" by auto
    with sub [of sp] show ?thesis by simp
  next
    case False
    then have "decodes (snd (install env i)) = []"
      by (auto simp: install_def snd_and_then decodes_createNewLifecycleInstallProposal
          split: outcome.splits prod.splits option.splits sum.splits)
    then show ?thesis by simp
  qed
qed

text \<open>
  \<^bold>\<open>C5.\<close> \<^verbatim>\<open>proto.Unmarshal\<close> is called on the payload only under the
  \<^verbatim>\<open>_lifecycle\<close> dialect and only for a reply with the success status; when it fails
  there, the error is returned although the status was success; under the legacy dialect a
  reply with the success status returns nil with no decode. The first three parts state
  this for \<^verbatim>\<open>submitInstallProposal\<close>, the others for the workflows: once its earlier
  stages have succeeded and the endorser has replied with the success status,
  \<^verbatim>\<open>install\<close> returns the decode error when the payload does not decode, and
  \<^verbatim>\<open>installLegacy\<close> returns nil without a decode; \<^verbatim>\<open>installChaincode\<close> runs one or
  the other according to the dialect; and an invocation that decodes at all is a
  \<^verbatim>\<open>_lifecycle\<close> one whose endorser replied with the success status, the decoded bytes
  being the payload of that reply.
\<close>

theorem payload_decode_only_lifecycle_success:
  "(decodes (snd (submitInstallProposal env i sp)) \<noteq> [] \<longrightarrow>
      NewLifecycle (Input i)
      \<and> (\<exists>client rest pr r. EndorserClients i = client # rest \<and> client sp = Inr (Some pr)
            \<and> Response pr = Some r \<and> Status r = Status_SUCCESS env
            \<and> decodes (snd (submitInstallProposal env i sp)) = [Payload r]))
   \<and> (\<forall>client rest pr r e.
        EndorserClients i = client # rest \<and> client sp = Inr (Some pr) \<and> Response pr = Some r
        \<and> Status r = Status_SUCCESS env \<and> NewLifecycle (Input i)
        \<and> Unmarshal env (Payload r) = Inl e \<longrightarrow>
        submitInstallProposal env i sp =
          (Fail (Wrap e ''error unmarshaling proposal response's response payload''),
           [ProcessProposal 0 sp, Infof ''Installed remotely: %v'', Call_Unmarshal (Payload r)]))
   \<and> (\<forall>client rest pr r.
        EndorserClients i = client # rest \<and> client sp = Inr (Some pr) \<and> Response pr = Some r
        \<and> Status r = Status_SUCCESS env \<and> \<not> NewLifecycle (Input i) \<longrightarrow>
        submitInstallProposal env i sp =
          (Return (), [ProcessProposal 0 sp, Infof ''Installed remotely: %v'']))
   \<and> (\<not> newLifecycle fl \<longrightarrow> decodes (snd (installChaincode env fl j args)) = [])
   \<and> (NewLifecycle (Input i) \<and> validateInput i = None
        \<and> Reader i (PackageFile (Input i)) = Inr pkgBytes
        \<and> Marshal env \<lparr>args_Name = Name (Input i), args_Version = Version (Input i),
                        args_ChaincodeInstallPackage = pkgBytes\<rparr> = Inr argsBytes
        \<and> CreateProposalFromCIS env ENDORSER_TRANSACTION []
            \<lparr>cis_ChaincodeSpec = Some
               \<lparr>spec_ChaincodeId = Some
                  \<lparr>ccid_Path = [], ccid_Name = newLifecycleName env, ccid_Version = []\<rparr>,
                spec_Input = Some \<lparr>Args = [''InstallChaincode'', argsBytes]\<rparr>\<rparr>\<rparr>
            (fst (Serialize (Signer i))) = Inr proposal
        \<and> GetSignedProposal env proposal (Signer i) = Inr signedProposal
        \<and> EndorserClients i = endorser # others \<and> endorser signedProposal = Inr (Some reply)
        \<and> Response reply = Some verdict \<and> Status verdict = Status_SUCCESS env
        \<and> Unmarshal env (Payload verdict) = Inl decodeErr \<longrightarrow>
        install env i =
          (Fail (Wrap decodeErr ''error unmarshaling proposal response's response payload''),
           [Reader_ReadFile (PackageFile (Input i)), Signer_Serialize, Call_Marshal,
            Call_CreateProposalFromCIS (fst (Serialize (Signer i))), Call_GetSignedProposal,
            ProcessProposal 0 signedProposal, Infof ''Installed remotely: %v'',
            Call_Unmarshal (Payload verdict)]))
   \<and> (\<not> NewLifecycle (Input i) \<and> getLegacyChaincodePackageMessage env i = (Return msg, t)
        \<and> Serialize (Signer i) = (creator, None)
        \<and> CreateInstallProposalFromCDS env msg creator = Inr proposal
        \<and> GetSignedProposal env proposal (Signer i) = Inr signedProposal
        \<and> EndorserClients i = endorser # others \<and> endorser signedProposal = Inr (Some reply)
        \<and> Response reply = Some verdict \<and> Status verdict = Status_SUCCESS env \<longrightarrow>
        installLegacy env i =
          (Return (),
           t @ [Signer_Serialize, Call_CreateInstallProposalFromCDS, Call_GetSignedProposal,
                ProcessProposal 0 signedProposal, Infof ''Installed remotely: %v'']))
   \<and> installChaincode env fl j args =
        (if newLifecycle fl
         then install env
                (setInput fl args
                   (j\<lparr>Command := map_option (\<lambda>c. c\<lparr>SilenceUsage := True\<rparr>) (Command j)\<rparr>))
         else installLegacy env
                (setInput fl args
                   (j\<lparr>Command := map_option (\<lambda>c. c\<lparr>SilenceUsage := True\<rparr>) (Command j)\<rparr>)))
   \<and> (decodes (snd (installChaincode env fl j args)) \<noteq> [] \<longrightarrow>
        newLifecycle fl
        \<and> (\<exists>sp' client rest pr r. EndorserClients j = client # rest
              \<and> client sp' = Inr (Some pr) \<and> Response pr = Some r
              \<and> Status r = Status_SUCCESS env
              \<and> decodes (snd (installChaincode env fl j args)) = [Payload r]))"
proof (intro conjI)
  show "decodes (snd (submitInstallProposal env i sp)) \<noteq> [] \<longrightarrow>
      NewLifecycle (Input i)
      \<and> (\<exists>client rest pr r. EndorserClients i = client # rest \<and> client sp = Inr (Some pr)
            \<and> Response pr = Some r \<and> Status r = Status_SUCCESS env
            \<and> decodes (snd (submitInstallProposal env i sp)) = [Payload r])"
    using decodes_submit_cases [of env i sp] by auto
  show "\<forall>client rest pr r e.
        EndorserClients i = client # rest \<and> client sp = Inr (Some pr) \<and> Response pr = Some r
        \<and> Status r = Status_SUCCESS env \<and> NewLifecycle (Input i)
        \<and> Unmarshal env (Payload r) = Inl e \<longrightarrow>
        submitInstallProposal env i sp =
          (Fail (Wrap e ''error unmarshaling proposal response's response payload''),
           [ProcessProposal 0 sp, Infof ''Installed remotely: %v'', Call_Unmarshal (Payload r)])"
    by (simp add: submitInstallProposal_def)
  show "\<forall>client rest pr r.
        EndorserClients i = client # rest \<and> client sp = Inr (Some pr) \<and> Response pr = Some r
        \<and> Status r = Status_SUCCESS env \<and> \<not> NewLifecycle (Input i) \<longrightarrow>
        submitInstallProposal env i sp =
          (Return (), [ProcessProposal 0 sp, Infof ''Installed remotely: %v''])"
    by (simp add: submitInstallProposal_def)
  show "\<not> newLifecycle fl \<longrightarrow> decodes (snd (installChaincode env fl j args)) = []"
    by (simp add: installChaincode_dispatch decodes_installLegacy Input_setInput)
  show "NewLifecycle (Input i) \<and> validateInput i = None
        \<and> Reader i (PackageFile (Input i)) = Inr pkgBytes
        \<and> Marshal env \<lparr>args_Name = Name (Input i), args_Version = Version (Input i),
                        args_ChaincodeInstallPackage = pkgBytes\<rparr> = Inr argsBytes
        \<and> CreateProposalFromCIS env ENDORSER_TRANSACTION []
            \<lparr>cis_ChaincodeSpec = Some
               \<lparr>spec_ChaincodeId = Some
                  \<lparr>ccid_Path = [], ccid_Name = newLifecycleName env, ccid_Version = []\<rparr>,
                spec_Input = Some \<lparr>Args = [''InstallChaincode'', argsBytes]\<rparr>\<rparr>\<rparr>
            (fst (Serialize (Signer i))) = Inr proposal
        \<and> GetSignedProposal env proposal (Signer i) = Inr signedProposal
        \<and> EndorserClients i = endorser # others \<and> endorser signedProposal = Inr (Some reply)
        \<and> Response reply = Some verdict \<and> Status verdict = Status_SUCCESS env
        \<and> Unmarshal env (Payload verdict) = Inl decodeErr \<longrightarrow>
        install env i =
          (Fail (Wrap decodeErr ''error unmarshaling proposal response's response payload''),
           [Reader_ReadFile (PackageFile (Input i)), Signer_Serialize, Call_Marshal,
            Call_CreateProposalFromCIS (fst (Serialize (Signer i))), Call_GetSignedProposal,
            ProcessProposal 0 signedProposal, Infof ''Installed remotely: %v'',
            Call_Unmarshal (Payload verdict)])"
  proof (intro impI, elim conjE)
    assume stages: "validateInput i = None"
      "Reader i (PackageFile (Input i)) = Inr pkgBytes"
      "Marshal env \<lparr>args_Name = Name (Input i), args_Version = Version (Input i),
                        args_ChaincodeInstallPackage = pkgBytes\<rparr> = Inr argsBytes"
      "CreateProposalFromCIS env ENDORSER_TRANSACTION []
            \<lparr>cis_ChaincodeSpec = Some
               \<lparr>spec_ChaincodeId = Some
                  \<lparr>ccid_Path = [], ccid_Name = newLifecycleName env, ccid_Version = []\<rparr>,
                spec_Input = Some \<lparr>Args = [''InstallChaincode'', argsBytes]\<rparr>\<rparr>\<rparr>
            (fst (Serialize (Signer i))) = Inr proposal"
      "GetSignedProposal env proposal (Signer i) = Inr signedProposal"
    assume reply: "NewLifecycle (Input i)" "EndorserClients i = endorser # others"
      "endorser signedProposal = Inr (Some reply)" "Response reply = Some verdict"
      "Status verdict = Status_SUCCESS env" "Unmarshal env (Payload verdict) = Inl decodeErr"
    from reply have "submitInstallProposal env i signedProposal =
          (Fail (Wrap decodeErr ''error unmarshaling proposal response's response payload''),
           [ProcessProposal 0 signedProposal, Infof ''Installed remotely: %v'',
            Call_Unmarshal (Payload verdict)])"
      by (simp add: submitInstallProposal_def)
    with install_reaches_submission [OF stages]
    show "install env i =
          (Fail (Wrap decodeErr ''error unmarshaling proposal response's response payload''),
           [Reader_ReadFile (PackageFile (Input i)), Signer_Serialize, Call_Marshal,
            Call_CreateProposalFromCIS (fst (Serialize (Signer i))), Call_GetSignedProposal,
            ProcessProposal 0 signedProposal, Infof ''Installed remotely: %v'',
            Call_Unmarshal (Payload verdict)])"
      by simp
  qed
  show "\<not> NewLifecycle (Input i) \<and> getLegacyChaincodePackageMessage env i = (Return msg, t)
        \<and> Serialize (Signer i) = (creator, None)
        \<and> CreateInstallProposalFromCDS env msg creator = Inr proposal
        \<and> GetSignedProposal env proposal (Signer i) = Inr signedProposal
        \<and> EndorserClients i = endorser # others \<and> endorser signedProposal = Inr (Some reply)
        \<and> Response reply = Some verdict \<and> Status verdict = Status_SUCCESS env \<longrightarrow>
        installLegacy env i =
          (Return (),
           t @ [Signer_Serialize, Call_CreateInstallProposalFromCDS, Call_GetSignedProposal,
                ProcessProposal 0 signedProposal, Infof ''Installed remotely: %v''])"
  proof (intro impI, elim conjE)
    assume stages: "getLegacyChaincodePackageMessage env i = (Return msg, t)"
      "Serialize (Signer i) = (creator, None)"
      "CreateInstallProposalFromCDS env msg creator = Inr proposal"
      "GetSignedProposal env proposal (Signer i) = Inr signedProposal"
    assume reply: "\<not> NewLifecycle (Input i)" "EndorserClients i = endorser # others"
      "endorser signedProposal = Inr (Some reply)" "Response reply = Some verdict"
      "Status verdict = Status_SUCCESS env"
    from reply have "submitInstallProposal env i signedProposal =
          (Return (), [ProcessProposal 0 signedProposal, Infof ''Installed remotely: %v''])"
      by (simp add: submitInstallProposal_def)
    with installLegacy_reaches_submission [OF stages]
    show "installLegacy env i =
          (Return (),
           t @ [Signer_Serialize, Call_CreateInstallProposalFromCDS, Call_GetSignedProposal,
                ProcessProposal 0 signedProposal, Infof ''Installed remotely: %v''])"
      by simp
  qed
  show "installChaincode env fl j args =
        (if newLifecycle fl
         then install env
                (setInput fl args
                   (j\<lparr>Command := map_option (\<lambda>c. c\<lparr>SilenceUsage := True\<rparr>) (Command j)\<rparr>))
         else installLegacy env
                (setInput fl args
                   (j\<lparr>Command := map_option (\<lambda>c. c\<lparr>SilenceUsage := True\<rparr>) (Command j)\<rparr>)))"
    by (rule installChaincode_dispatch)
  show "decodes (snd (installChaincode env fl j args)) \<noteq> [] \<longrightarrow>
        newLifecycle fl
        \<and> (\<exists>sp' client rest pr r. EndorserClients j = client # rest
              \<and> client sp' = Inr (Some pr) \<and> Response pr = Some r
              \<and> Status r = Status_SUCCESS env
              \<and> decodes (snd (installChaincode env fl j args)) = [Payload r])"
  proof (cases "newLifecycle fl")
    case False
    then show ?thesis
      by (simp add: installChaincode_dispatch decodes_installLegacy Input_setInput)
  next
    case True
    with decodes_install_cases
      [of env "setInput fl args
                 (j\<lparr>Command := map_option (\<lambda>c. c\<lparr>SilenceUsage := True\<rparr>) (Command j)\<rparr>)"]
    show ?thesis
      by (auto simp: installChaincode_dispatch EndorserClients_setInput)
  qed
qed

theorem payload_decode_only_lifecycle_success_witness:
  "EndorserClients (lifecycle_installer\<lparr>EndorserClients := [garbage_payload_client]\<rparr>)
     = garbage_payload_client # []
   \<and> NewLifecycle (Input (lifecycle_installer\<lparr>EndorserClients := [garbage_payload_client]\<rparr>))
   \<and> Unmarshal example_collaborators ''garbage''
     = Inl (New ''proto: cannot parse invalid wire-format data'')
   \<and> submitInstallProposal example_collaborators
        (lifecycle_installer\<lparr>EndorserClients := [garbage_payload_client]\<rparr>) example_signed_proposal
     = (Fail (Wrap (New ''proto: cannot parse invalid wire-format data'')
                ''error unmarshaling proposal response's response payload''),
        [ProcessProposal 0 example_signed_proposal, Infof ''Installed remotely: %v'',
         Call_Unmarshal ''garbage''])
   \<and> validateInput (lifecycle_installer\<lparr>EndorserClients := [garbage_payload_client]\<rparr>) = None
   \<and> install example_collaborators
        (lifecycle_installer\<lparr>EndorserClients := [garbage_payload_client]\<rparr>)
     = (Fail (Wrap (New ''proto: cannot parse invalid wire-format data'')
                ''error unmarshaling proposal response's response payload''),
        [Reader_ReadFile ''pkg.tar.gz'', Signer_Serialize, Call_Marshal,
         Call_CreateProposalFromCIS ''creator'', Call_GetSignedProposal,
         ProcessProposal 0 example_signed_proposal, Infof ''Installed remotely: %v'',
         Call_Unmarshal ''garbage''])
   \<and> installChaincode example_collaborators
        \<lparr>chaincodeName = ''mycc'', chaincodeVersion = ''1.0'', chaincodePath = [],
         newLifecycle = True\<rparr>
        (lifecycle_installer\<lparr>EndorserClients := [garbage_payload_client]\<rparr>) [''pkg.tar.gz'']
     = (Fail (Wrap (New ''proto: cannot parse invalid wire-format data'')
                ''error unmarshaling proposal response's response payload''),
        [Reader_ReadFile ''pkg.tar.gz'', Signer_Serialize, Call_Marshal,
         Call_CreateProposalFromCIS ''creator'', Call_GetSignedProposal,
         ProcessProposal 0 example_signed_proposal, Infof ''Installed remotely: %v'',
         Call_Unmarshal ''garbage''])
   \<and> \<not> NewLifecycle (Input legacy_installer)
   \<and> installLegacy example_collaborators legacy_installer
     = (Return (),
        [Ioutil_ReadFile ''pkg.bin'', Call_GetCCPackage, Signer_Serialize,
         Call_CreateInstallProposalFromCDS, Call_GetSignedProposal,
         ProcessProposal 0 example_signed_proposal, Infof ''Installed remotely: %v''])
   \<and> decodes (snd (installChaincode example_collaborators
        \<lparr>chaincodeName = ''mycc'', chaincodeVersion = ''1.0'', chaincodePath = [],
         newLifecycle = False\<rparr> lifecycle_installer [''pkg.bin''])) = []"
proof -
  have g: "getLegacyChaincodePackageMessage example_collaborators legacy_installer
       = (Return (CDSObject (Some example_cds)), [Ioutil_ReadFile ''pkg.bin'', Call_GetCCPackage])"
    by (simp add: getLegacyChaincodePackageMessage_def getPackageFromFile_def Let_def example_defs)
  show ?thesis
    using g
      payload_decode_only_lifecycle_success
      [where env = example_collaborators
         and i = "lifecycle_installer\<lparr>EndorserClients := [garbage_payload_client]\<rparr>"
         and sp = example_signed_proposal
         and fl = "\<lparr>chaincodeName = ''mycc'', chaincodeVersion = ''1.0'', chaincodePath = [],
         newLifecycle = True\<rparr>"
         and j = "lifecycle_installer\<lparr>EndorserClients := [garbage_payload_client]\<rparr>"
         and args = "[''pkg.tar.gz'']"
         and pkgBytes = "''package''" and argsBytes = "''mycc1.0package''"
         and proposal = "\<lparr>prop_Header = ''creator'', prop_Payload = ''cis''\<rparr>"
         and signedProposal = example_signed_proposal
         and endorser = garbage_payload_client and others = "[]"
         and reply = "\<lparr>Response = Some \<lparr>Status = 200, Message = ''OK'', Payload = ''garbage''\<rparr>\<rparr>"
         and verdict = "\<lparr>Status = 200, Message = ''OK'', Payload = ''garbage''\<rparr>"
         and decodeErr = "New ''proto: cannot parse invalid wire-format data''"]
      payload_decode_only_lifecycle_success
      [where env = example_collaborators and i = legacy_installer
         and sp = example_signed_proposal
         and fl = "\<lparr>chaincodeName = ''mycc'', chaincodeVersion = ''1.0'', chaincodePath = [],
         newLifecycle = False\<rparr>"
         and j = lifecycle_installer and args = "[''pkg.bin'']"
         and msg = "CDSObject (Some example_cds)"
         and t = "[Ioutil_ReadFile ''pkg.bin'', Call_GetCCPackage]"
         and creator = "''creator''"
         and proposal = "\<lparr>prop_Header = ''creator'', prop_Payload = ''cds''\<rparr>"
         and signedProposal = example_signed_proposal
         and endorser = accepting_client and others = "[]"
         and reply = "\<lparr>Response = Some \<lparr>Status = 200, Message = ''OK'', Payload = ''hash''\<rparr>\<rparr>"
         and verdict = "\<lparr>Status = 200, Message = ''OK'', Payload = ''hash''\<rparr>"]
    by (simp add: validateInput_def setInput_def garbage_payload_client_def accepting_client_def
          lifecycle_installer_def legacy_installer_def example_collaborators_def
          example_signer_def example_signed_proposal_def)
qed

text \<open>
  \<^bold>\<open>C8.\<close> With at least one endorser client, \<^verbatim>\<open>submitInstallProposal\<close> calls
  \<^verbatim>\<open>ProcessProposal\<close> exactly once, on the client of index 0, with the signed proposal
  it was given. In both dialects the workflow does so with the proposal that
  \<^verbatim>\<open>GetSignedProposal\<close> returned: once the earlier stages of \<^verbatim>\<open>install\<close>, or of
  \<^verbatim>\<open>installLegacy\<close>, have succeeded, the submissions of the run are that one call and
  no other. \<^verbatim>\<open>installChaincode\<close> runs one or the other according to the dialect. Whatever
  the collaborators do, an invocation makes no submission (it ended before the submission)
  or exactly one, to the client of index 0 and of a proposal that \<^verbatim>\<open>GetSignedProposal\<close>
  returned, and exactly one when it returns nil.
\<close>

theorem single_submission:
  "(EndorserClients i \<noteq> [] \<longrightarrow>
      submissions (snd (submitInstallProposal env i sp)) = [(0, sp)])
   \<and> (EndorserClients i \<noteq> [] \<and> validateInput i = None
        \<and> Reader i (PackageFile (Input i)) = Inr pkgBytes
        \<and> Marshal env \<lparr>args_Name = Name (Input i), args_Version = Version (Input i),
                        args_ChaincodeInstallPackage = pkgBytes\<rparr> = Inr argsBytes
        \<and> CreateProposalFromCIS env ENDORSER_TRANSACTION []
            \<lparr>cis_ChaincodeSpec = Some
               \<lparr>spec_ChaincodeId = Some
                  \<lparr>ccid_Path = [], ccid_Name = newLifecycleName env, ccid_Version = []\<rparr>,
                spec_Input = Some \<lparr>Args = [''InstallChaincode'', argsBytes]\<rparr>\<rparr>\<rparr>
            (fst (Serialize (Signer i))) = Inr proposal
        \<and> GetSignedProposal env proposal (Signer i) = Inr signedProposal \<longrightarrow>
        submissions (snd (install env i)) = [(0, signedProposal)])
   \<and> (EndorserClients i \<noteq> [] \<and> getLegacyChaincodePackageMessage env i = (Return msg, t)
        \<and> Serialize (Signer i) = (creator, None)
        \<and> CreateInstallProposalFromCDS env msg creator = Inr proposal
        \<and> GetSignedProposal env proposal (Signer i) = Inr signedProposal \<longrightarrow>
        submissions (snd (installLegacy env i)) = [(0, signedProposal)])
   \<and> installChaincode env fl j args =
        (if newLifecycle fl
         then install env
                (setInput fl args
                   (j\<lparr>Command := map_option (\<lambda>c. c\<lparr>SilenceUsage := True\<rparr>) (Command j)\<rparr>))
         else installLegacy env
                (setInput fl args
                   (j\<lparr>Command := map_option (\<lambda>c. c\<lparr>SilenceUsage := True\<rparr>) (Command j)\<rparr>)))
   \<and> (submissions (snd (installChaincode env fl j args)) = []
        \<or> (\<exists>p sp'. GetSignedProposal env p (Signer j) = Inr sp'
              \<and> submissions (snd (installChaincode env fl j args)) = [(0, sp')]))
   \<and> (fst (installChaincode env fl j args) = Return () \<longrightarrow>
        (\<exists>p sp'. GetSignedProposal env p (Signer j) = Inr sp'
              \<and> submissions (snd (installChaincode env fl j args)) = [(0, sp')]))"
proof (intro conjI)
  show "EndorserClients i \<noteq> [] \<longrightarrow>
      submissions (snd (submitInstallProposal env i sp)) = [(0, sp)]"
    by (simp add: submissions_submit)
  show "EndorserClients i \<noteq> [] \<and> validateInput i = None
        \<and> Reader i (PackageFile (Input i)) = Inr pkgBytes
        \<and> Marshal env \<lparr>args_Name = Name (Input i), args_Version = Version (Input i),
                        args_ChaincodeInstallPackage = pkgBytes\<rparr> = Inr argsBytes
        \<and> CreateProposalFromCIS env ENDORSER_TRANSACTION []
            \<lparr>cis_ChaincodeSpec = Some
               \<lparr>spec_ChaincodeId = Some
                  \<lparr>ccid_Path = [], ccid_Name = newLifecycleName env, ccid_Version = []\<rparr>,
                spec_Input = Some \<lparr>Args = [''InstallChaincode'', argsBytes]\<rparr>\<rparr>\<rparr>
            (fst (Serialize (Signer i))) = Inr proposal
        \<and> GetSignedProposal env proposal (Signer i) = Inr signedProposal \<longrightarrow>
        submissions (snd (install env i)) = [(0, signedProposal)]"
  proof (intro impI, elim conjE)
    assume clients: "EndorserClients i \<noteq> []"
    assume stages: "validateInput i = None"
      "Reader i (PackageFile (Input i)) = Inr pkgBytes"
      "Marshal env \<lparr>args_Name = Name (Input i), args_Version = Version (Input i),
                        args_ChaincodeInstallPackage = pkgBytes\<rparr> = Inr argsBytes"
      "CreateProposalFromCIS env ENDORSER_TRANSACTION []
            \<lparr>cis_ChaincodeSpec = Some
               \<lparr>spec_ChaincodeId = Some
                  \<lparr>ccid_Path = [], ccid_Name = newLifecycleName env, ccid_Version = []\<rparr>,
                spec_Input = Some \<lparr>Args = [''InstallChaincode'', argsBytes]\<rparr>\<rparr>\<rparr>
            (fst (Serialize (Signer i))) = Inr proposal"
      "GetSignedProposal env proposal (Signer i) = Inr signedProposal"
    from install_reaches_submission [OF stages] clients
    show "submissions (snd (install env i)) = [(0, signedProposal)]"
      by (simp add: submissions_submit)
  qed
  show "EndorserClients i \<noteq> [] \<and> getLegacyChaincodePackageMessage env i = (Return msg, t)
        \<and> Serialize (Signer i) = (creator, None)
        \<and> CreateInstallProposalFromCDS env msg creator = Inr proposal
        \<and> GetSignedProposal env proposal (Signer i) = Inr signedProposal \<longrightarrow>
        submissions (snd (installLegacy env i)) = [(0, signedProposal)]"
  proof (intro impI, elim conjE)
    assume clients: "EndorserClients i \<noteq> []"
    assume stages: "getLegacyChaincodePackageMessage env i = (Return msg, t)"
      "Serialize (Signer i) = (creator, None)"
      "CreateInstallProposalFromCDS env msg creator = Inr proposal"
      "GetSignedProposal env proposal (Signer i) = Inr signedProposal"
    from stages(1) submissions_getLegacyChaincodePackageMessage [of env i]
    have "submissions t = []" by simp
    with installLegacy_reaches_submission [OF stages] clients
    show "submissions (snd (installLegacy env i)) = [(0, signedProposal)]"
      by (simp add: submissions_submit)
  qed
  show "installChaincode env fl j args =
        (if newLifecycle fl
         then install env
                (setInput fl args
                   (j\<lparr>Command := map_option (\<lambda>c. c\<lparr>SilenceUsage := True\<rparr>) (Command j)\<rparr>))
         else installLegacy env
                (setInput fl args
                   (j\<lparr>Command := map_option (\<lambda>c. c\<lparr>SilenceUsage := True\<rparr>) (Command j)\<rparr>)))"
    by (rule installChaincode_dispatch)
  show "submissions (snd (installChaincode env fl j args)) = []
        \<or> (\<exists>p sp'. GetSignedProposal env p (Signer j) = Inr sp'
              \<and> submissions (snd (installChaincode env fl j args)) = [(0, sp')])"
    using submissions_install_signed
      [of env "setInput fl args
                 (j\<lparr>Command := map_option (\<lambda>c. c\<lparr>SilenceUsage := True\<rparr>) (Command j)\<rparr>)"]
      submissions_installLegacy_signed
      [of env "setInput fl args
                 (j\<lparr>Command := map_option (\<lambda>c. c\<lparr>SilenceUsage := True\<rparr>) (Command j)\<rparr>)"]
    by (simp add: installChaincode_dispatch Signer_setInput)
  show "fst (installChaincode env fl j args) = Return () \<longrightarrow>
        (\<exists>p sp'. GetSignedProposal env p (Signer j) = Inr sp'
              \<and> submissions (snd (installChaincode env fl j args)) = [(0, sp')])"
    using install_Return_signed
      [of env "setInput fl args
                 (j\<lparr>Command := map_option (\<lambda>c. c\<lparr>SilenceUsage := True\<rparr>) (Command j)\<rparr>)"]
      installLegacy_Return_signed
      [of env "setInput fl args
                 (j\<lparr>Command := map_option (\<lambda>c. c\<lparr>SilenceUsage := True\<rparr>) (Command j)\<rparr>)"]
    by (simp add: installChaincode_dispatch Signer_setInput)
qed

theorem single_submission_witness:
  "EndorserClients lifecycle_installer \<noteq> []
   \<and> submissions (snd (submitInstallProposal example_collaborators lifecycle_installer
                         example_signed_proposal)) = [(0, example_signed_proposal)]
   \<and> validateInput lifecycle_installer = None
   \<and> GetSignedProposal example_collaborators \<lparr>prop_Header = ''creator'', prop_Payload = ''cis''\<rparr>
        (Signer lifecycle_installer) = Inr example_signed_proposal
   \<and> submissions (snd (install example_collaborators lifecycle_installer))
     = [(0, example_signed_proposal)]
   \<and> installChaincode example_collaborators
        \<lparr>chaincodeName = ''mycc'', chaincodeVersion = ''1.0'', chaincodePath = [],
         newLifecycle = True\<rparr> lifecycle_installer [''pkg.tar.gz'']
     = (Return (),
        [Reader_ReadFile ''pkg.tar.gz'', Signer_Serialize, Call_Marshal,
         Call_CreateProposalFromCIS ''creator'', Call_GetSignedProposal,
         ProcessProposal 0 example_signed_proposal, Infof ''Installed remotely: %v'',
         Call_Unmarshal ''hash'', Infof ''Chaincode code package hash: %x''])
   \<and> EndorserClients legacy_installer \<noteq> []
   \<and> submissions (snd (installLegacy example_collaborators legacy_installer))
     = [(0, example_signed_proposal)]
   \<and> installChaincode example_collaborators
        \<lparr>chaincodeName = ''mycc'', chaincodeVersion = ''1.0'', chaincodePath = [],
         newLifecycle = False\<rparr> lifecycle_installer [''pkg.bin'']
     = (Return (),
        [Ioutil_ReadFile ''pkg.bin'', Call_GetCCPackage, Signer_Serialize,
         Call_CreateInstallProposalFromCDS, Call_GetSignedProposal,
         ProcessProposal 0 example_signed_proposal, Infof ''Installed remotely: %v''])"
proof -
  have il: "install example_collaborators lifecycle_installer
       = (Return (),
        [Reader_ReadFile ''pkg.tar.gz'', Signer_Serialize, Call_Marshal,
         Call_CreateProposalFromCIS ''creator'', Call_GetSignedProposal,
         ProcessProposal 0 example_signed_proposal, Infof ''Installed remotely: %v'',
         Call_Unmarshal ''hash'', Infof ''Chaincode code package hash: %x''])"
    by (simp add: install_def validateInput_def createNewLifecycleInstallProposal_def
          submitInstallProposal_def example_defs)
  have ig: "installLegacy example_collaborators legacy_installer
       = (Return (),
        [Ioutil_ReadFile ''pkg.bin'', Call_GetCCPackage, Signer_Serialize,
         Call_CreateInstallProposalFromCDS, Call_GetSignedProposal,
         ProcessProposal 0 example_signed_proposal, Infof ''Installed remotely: %v''])"
    by (simp add: installLegacy_def getLegacyChaincodePackageMessage_def getPackageFromFile_def
          createLegacyInstallProposal_def submitInstallProposal_def Let_def example_defs)
  have el: "setInput \<lparr>chaincodeName = ''mycc'', chaincodeVersion = ''1.0'', chaincodePath = [],
         newLifecycle = True\<rparr> [''pkg.tar.gz'']
              (lifecycle_installer\<lparr>Command := map_option (\<lambda>c. c\<lparr>SilenceUsage := True\<rparr>)
                 (Command lifecycle_installer)\<rparr>) = lifecycle_installer"
    by (simp add: setInput_def lifecycle_installer_def)
  have eg: "setInput \<lparr>chaincodeName = ''mycc'', chaincodeVersion = ''1.0'', chaincodePath = [],
         newLifecycle = False\<rparr> [''pkg.bin'']
              (lifecycle_installer\<lparr>Command := map_option (\<lambda>c. c\<lparr>SilenceUsage := True\<rparr>)
                 (Command lifecycle_installer)\<rparr>) = legacy_installer"
    by (simp add: setInput_def lifecycle_installer_def legacy_installer_def)
  show ?thesis
    using il ig el eg
      single_submission
      [where env = example_collaborators and i = lifecycle_installer
         and sp = example_signed_proposal
         and fl = "\<lparr>chaincodeName = ''mycc'', chaincodeVersion = ''1.0'', chaincodePath = [],
         newLifecycle = True\<rparr>"
         and j = lifecycle_installer and args = "[''pkg.tar.gz'']"
         and pkgBytes = "''package''" and argsBytes = "''mycc1.0package''"
         and proposal = "\<lparr>prop_Header = ''creator'', prop_Payload = ''cis''\<rparr>"
         and signedProposal = example_signed_proposal]
      single_submission
      [where env = example_collaborators and i = legacy_installer
         and sp = example_signed_proposal
         and fl = "\<lparr>chaincodeName = ''mycc'', chaincodeVersion = ''1.0'', chaincodePath = [],
         newLifecycle = False\<rparr>"
         and j = lifecycle_installer and args = "[''pkg.bin'']"
         and msg = "CDSObject (Some example_cds)"
         and t = "[Ioutil_ReadFile ''pkg.bin'', Call_GetCCPackage]"
         and creator = "''creator''"
         and proposal = "\<lparr>prop_Header = ''creator'', prop_Payload = ''cds''\<rparr>"
         and signedProposal = example_signed_proposal]
    by (simp add: validateInput_def lifecycle_installer_def legacy_installer_def
          example_collaborators_def)
qed

text \<open>
  \<^bold>\<open>C9.\<close> \<^verbatim>\<open>submitInstallProposal\<close> indexes \<^verbatim>\<open>EndorserClients[0]\<close> without a
  check: with no client it panics before any call, and with a client it does not panic.
  The workflows do not check either: with no client, \<^verbatim>\<open>install\<close> and
  \<^verbatim>\<open>installLegacy\<close> panic as soon as their earlier stages have succeeded.
\<close>

theorem submit_needs_an_endorser_client:
  "(EndorserClients i = [] \<longrightarrow> submitInstallProposal env i sp = (Panic IndexOutOfRange, []))
   \<and> (EndorserClients i \<noteq> [] \<longrightarrow> (\<forall>p. fst (submitInstallProposal env i sp) \<noteq> Panic p))
   \<and> (EndorserClients i = [] \<and> validateInput i = None
        \<and> Reader i (PackageFile (Input i)) = Inr pkgBytes
        \<and> Marshal env \<lparr>args_Name = Name (Input i), args_Version = Version (Input i),
                        args_ChaincodeInstallPackage = pkgBytes\<rparr> = Inr argsBytes
        \<and> (\<forall>cis. CreateProposalFromCIS env ENDORSER_TRANSACTION [] cis
                    (fst (Serialize (Signer i))) = Inr prop)
        \<and> GetSignedProposal env prop (Signer i) = Inr sp \<longrightarrow>
        fst (install env i) = Panic IndexOutOfRange)
   \<and> (EndorserClients i = [] \<and> getLegacyChaincodePackageMessage env i = (Return msg, t)
        \<and> Serialize (Signer i) = (creator, None)
        \<and> CreateInstallProposalFromCDS env msg creator = Inr prop
        \<and> GetSignedProposal env prop (Signer i) = Inr sp \<longrightarrow>
        fst (installLegacy env i) = Panic IndexOutOfRange)"
proof (intro conjI)
  show "EndorserClients i = [] \<longrightarrow> submitInstallProposal env i sp = (Panic IndexOutOfRange, [])"
    by (simp add: submitInstallProposal_def)
  show "EndorserClients i \<noteq> [] \<longrightarrow> (\<forall>p. fst (submitInstallProposal env i sp) \<noteq> Panic p)"
    by (simp add: submitInstallProposal_def split: list.splits option.splits sum.splits)
  show "EndorserClients i = [] \<and> validateInput i = None
        \<and> Reader i (PackageFile (Input i)) = Inr pkgBytes
        \<and> Marshal env \<lparr>args_Name = Name (Input i), args_Version = Version (Input i),
                        args_ChaincodeInstallPackage = pkgBytes\<rparr> = Inr argsBytes
        \<and> (\<forall>cis. CreateProposalFromCIS env ENDORSER_TRANSACTION [] cis
                    (fst (Serialize (Signer i))) = Inr prop)
        \<and> GetSignedProposal env prop (Signer i) = Inr sp \<longrightarrow>
        fst (install env i) = Panic IndexOutOfRange"
    by (simp add: install_def createNewLifecycleInstallProposal_def submitInstallProposal_def
          Let_def split: prod.splits)
  show "EndorserClients i = [] \<and> getLegacyChaincodePackageMessage env i = (Return msg, t)
        \<and> Serialize (Signer i) = (creator, None)
        \<and> CreateInstallProposalFromCDS env msg creator = Inr prop
        \<and> GetSignedProposal env prop (Signer i) = Inr sp \<longrightarrow>
        fst (installLegacy env i) = Panic IndexOutOfRange"
    by (simp add: installLegacy_def createLegacyInstallProposal_def submitInstallProposal_def)
qed

theorem submit_needs_an_endorser_client_witness:
  "EndorserClients (lifecycle_installer\<lparr>EndorserClients := []\<rparr>) = []
   \<and> validateInput (lifecycle_installer\<lparr>EndorserClients := []\<rparr>) = None
   \<and> install example_collaborators (lifecycle_installer\<lparr>EndorserClients := []\<rparr>)
     = (Panic IndexOutOfRange,
        [Reader_ReadFile ''pkg.tar.gz'', Signer_Serialize, Call_Marshal,
         Call_CreateProposalFromCIS ''creator'', Call_GetSignedProposal])
   \<and> EndorserClients lifecycle_installer \<noteq> []
   \<and> fst (submitInstallProposal example_collaborators lifecycle_installer example_signed_proposal)
     = Return ()"
  using submit_needs_an_endorser_client
    [of "lifecycle_installer\<lparr>EndorserClients := []\<rparr>" example_collaborators
        example_signed_proposal "''package''" "''mycc1.0package''"
        "\<lparr>prop_Header = ''creator'', prop_Payload = ''cis''\<rparr>"
        "CDSObject (Some example_cds)" "[]" "[]"]
    submit_needs_an_endorser_client
    [of lifecycle_installer example_collaborators example_signed_proposal]
  by (simp add: install_def validateInput_def createNewLifecycleInstallProposal_def
        submitInstallProposal_def example_defs)

subsection \<open>Serialization of the creator identity\<close>

text \<open>The legacy dialect returns the error of \<^verbatim>\<open>Signer.Serialize\<close>.\<close>

lemma legacy_serialize_error_returned:
  assumes "getLegacyChaincodePackageMessage env i = (Return msg, t)"
    and "Serialize (Signer i) = (creator, Some err)"
  shows "installLegacy env i =
           (Fail (WithMessage err
                    (Sprintf ''error serializing identity for %s''
                       [ArgV (GetIdentifier (Signer i))])),
            t @ [Signer_Serialize])"
  using assms by (simp add: installLegacy_def createLegacyInstallProposal_def)

text \<open>
  \<^bold>\<open>C2.\<close> Under the \<^verbatim>\<open>_lifecycle\<close> dialect \<^verbatim>\<open>install\<close> does not return the
  error of \<^verbatim>\<open>Signer.Serialize\<close>: with a signer whose serialization fails and
  collaborators that otherwise succeed, the workflow runs to the end and returns nil. The
  proposal is created with the empty creator bytes.
\<close>

theorem lifecycle_serialize_error_dropped:
  "Serialize (Signer (lifecycle_installer\<lparr>Signer := failing_signer\<rparr>))
     = ([], Some (New ''serialize failed''))
   \<and> install example_collaborators (lifecycle_installer\<lparr>Signer := failing_signer\<rparr>)
     = (Return (),
        [Reader_ReadFile ''pkg.tar.gz'', Signer_Serialize, Call_Marshal,
         Call_CreateProposalFromCIS [], Call_GetSignedProposal,
         ProcessProposal 0 example_signed_proposal, Infof ''Installed remotely: %v'',
         Call_Unmarshal ''hash'', Infof ''Chaincode code package hash: %x''])"
  by (simp add: install_def validateInput_def createNewLifecycleInstallProposal_def
        submitInstallProposal_def example_defs)

end
